theory Spec2Isabelle
  imports Main
begin

section \<open>Go values: byte strings, errors, case folding\<close>

text \<open>
  A Go \<^verbatim>\<open>[]byte\<close> and a Go \<^verbatim>\<open>string\<close> are both byte sequences; the conversions
  \<^verbatim>\<open>[]byte(s)\<close> and \<^verbatim>\<open>string(envelope)\<close> of \<^verbatim>\<open>pack.go\<close> are the identity here.
\<close>

type_synonym bytes = string

text \<open>
  A Go \<^verbatim>\<open>error\<close> is observed in \<^verbatim>\<open>pack.go\<close> only through its message
  (\<^verbatim>\<open>err.Error()\<close>, the verbs \<^verbatim>\<open>%w\<close> and \<^verbatim>\<open>%s\<close>), so an error value is its message.
  \<^verbatim>\<open>fmt.Errorf("prefix: %w", err)\<close> is \<open>Error (prefix @ msg)\<close>. A run-time panic of the
  code itself (a nil dereference) is a separate outcome, never wrapped.
\<close>

datatype error = Error string | Panic string

section \<open>The JWE structure read by the packer\<close>

text \<open>
  The fields of \<^verbatim>\<open>jose.JSONWebEncryption\<close> that \<^verbatim>\<open>pack.go\<close> and the envelope
  description name: the protected headers, the recipients (each with its header and
  encrypted key), the initialization vector, the ciphertext and the tag. The
  recipients and a recipient's header are pointers in Go, so either may be nil.
  The protected headers are a JSON object; its string members are kept.
\<close>

record RecipientHeaders =
  KID :: string

record Recipient =
  Header :: "RecipientHeaders option"
  EncryptedKey :: string

type_synonym Headers = "(string \<times> string) list"

record JSONWebEncryption =
  ProtectedHeaders :: Headers
  Recipients :: "Recipient option list"
  IV :: string
  Ciphertext :: string
  Tag :: string

text \<open>
  Modelled from the spec: the accessor \<^verbatim>\<open>ProtectedHeaders.KeyID()\<close> of the JOSE package,
  which is not among the sources. The compact form "carries a single implicit recipient
  whose key id is embedded in protected", and the wire name of a key id is \<^verbatim>\<open>kid\<close>: the
  accessor returns the member \<^verbatim>\<open>kid\<close> of the headers when there is one.
\<close>

definition KeyID :: "Headers \<Rightarrow> string option" where
  "KeyID h = map_of h ''kid''"

text \<open>\<^verbatim>\<open>transport.Envelope\<close>, as \<^verbatim>\<open>Unpack\<close> fills it.\<close>

record Envelope =
  Message :: bytes
  ToVerKey :: bytes

section \<open>Collaborators of the packer\<close>

text \<open>
  What \<^verbatim>\<open>kms.Get\<close> returns is an \<^verbatim>\<open>interface{}\<close>: a \<^verbatim>\<open>*keyset.Handle\<close> (over
  handles \<open>'h\<close>) or a value of another dynamic type.
\<close>

datatype 'h KeyHandle = KeysetHandle 'h | OtherType

text \<open>
  The functions \<^verbatim>\<open>pack.go\<close> calls and does not define, each a parameter: the JOSE
  package, the key set reader and writer, \<^verbatim>\<open>json.Unmarshal\<close> into a
  \<^verbatim>\<open>composite.PublicKey\<close> (decoded keys \<open>'pk\<close>), and the message of the sentinel
  \<^verbatim>\<open>storage.ErrDataNotFound\<close>. A failing call returns \<open>Inl msg\<close>, the message of its
  error. \<open>'e\<close> is the encrypter built by \<^verbatim>\<open>jose.NewJWEEncrypt\<close>.
  \<^verbatim>\<open>strings.EqualFold\<close> of the Go library, equality of two texts under Unicode case
  folding as the library decides it, is a parameter as well: nothing is assumed of it.
\<close>

record ('h, 'pk, 'e) collaborators =
  json_Unmarshal :: "bytes \<Rightarrow> string + 'pk"
  jose_NewJWEEncrypt :: "string \<Rightarrow> 'pk list \<Rightarrow> string + 'e"
  jose_Encrypt :: "'e \<Rightarrow> bytes \<Rightarrow> string + JSONWebEncryption"
  jose_CompactSerialize :: "JSONWebEncryption \<Rightarrow> string + string"
  jose_FullSerialize :: "JSONWebEncryption \<Rightarrow> string + string"
  jose_Deserialize :: "string \<Rightarrow> string + JSONWebEncryption"
  jose_Decrypt :: "'h \<Rightarrow> JSONWebEncryption \<Rightarrow> string + bytes"
  keyset_Public :: "'h \<Rightarrow> string + 'h"
  keyset_WriteWithNoSecrets :: "'h \<Rightarrow> string + bytes"
  storage_ErrDataNotFound :: string
  strings_EqualFold :: "string \<Rightarrow> string \<Rightarrow> bool"

text \<open>The \<^verbatim>\<open>Packer\<close> struct: its key manager (\<^verbatim>\<open>kms.Get\<close>) and its algorithm.\<close>

record 'h Packer =
  kms :: "string \<Rightarrow> string + 'h KeyHandle"
  encAlg :: string

section \<open>Pack\<close>

text \<open>
  \<^verbatim>\<open>unmarshalRecipientKeys\<close>: the keys are decoded in order; the first key that does
  not decode ends the loop with its error and no key list.
\<close>

fun unmarshalRecipientKeys ::
  "('h, 'pk, 'e) collaborators \<Rightarrow> bytes list \<Rightarrow> 'pk list \<Rightarrow> string + 'pk list" where
  "unmarshalRecipientKeys c [] pubKeys = Inr pubKeys"
| "unmarshalRecipientKeys c (key # keys) pubKeys =
     (case json_Unmarshal c key of
        Inl err \<Rightarrow> Inl err
      | Inr ecKey \<Rightarrow> unmarshalRecipientKeys c keys (pubKeys @ [ecKey]))"

definition Pack ::
  "('h, 'pk, 'e) collaborators \<Rightarrow> 'h Packer \<Rightarrow> bytes \<Rightarrow> bytes list \<Rightarrow> error + bytes" where
  "Pack c p payload recipientsPubKeys =
     (if length recipientsPubKeys = 0 then
        Inl (Error ''anoncrypt Pack: empty recipientsPubKeys'')
      else case unmarshalRecipientKeys c recipientsPubKeys [] of
        Inl err \<Rightarrow>
          Inl (Error (''anoncrypt Pack: failed to convert recipient keys: '' @ err))
      | Inr recECKeys \<Rightarrow>
        (case jose_NewJWEEncrypt c (encAlg p) recECKeys of
           Inl err \<Rightarrow>
             Inl (Error (''anoncrypt Pack: failed to new JWEEncrypt instance: '' @ err))
         | Inr jweEncrypter \<Rightarrow>
           (case jose_Encrypt c jweEncrypter payload of
              Inl err \<Rightarrow>
                Inl (Error (''anoncrypt Pack: failed to encrypt payload: '' @ err))
            | Inr jwe \<Rightarrow>
              (case (if length recipientsPubKeys = 1
                     then jose_CompactSerialize c jwe
                     else jose_FullSerialize c jwe) of
                 Inl err \<Rightarrow>
                   Inl (Error (''anoncrypt Pack: failed to serialize JWE message: '' @ err))
               | Inr s \<Rightarrow> Inr s))))"

section \<open>Unpack\<close>

text \<open>
  \<^verbatim>\<open>getKID\<close>: with a single recipient the key id is read from the protected headers
  (compact serialization), otherwise from the header of recipient \<open>i\<close>. The caller
  keeps \<open>i\<close> below the number of recipients; a nil recipient or a nil header makes the
  field access panic.
\<close>

definition getKID :: "nat \<Rightarrow> JSONWebEncryption \<Rightarrow> error + string" where
  "getKID i jwe =
     (if i = 0 \<and> length (Recipients jwe) = 1 then
        (case KeyID (ProtectedHeaders jwe) of
           None \<Rightarrow> Inl (Error ''single recipient missing 'KID' in jwe.ProtectHeaders'')
         | Some kid \<Rightarrow> Inr kid)
      else if length (Recipients jwe) \<le> i then Inl (Panic ''index out of range'')
      else
        (case Recipients jwe ! i of
           None \<Rightarrow> Inl (Panic ''nil pointer dereference'')
         | Some r \<Rightarrow>
           (case Header r of
              None \<Rightarrow> Inl (Panic ''nil pointer dereference'')
            | Some h \<Rightarrow> Inr (KID h))))"

definition exportPubKeyBytes :: "('h, 'pk, 'e) collaborators \<Rightarrow> 'h \<Rightarrow> string + bytes" where
  "exportPubKeyBytes c keyHandle =
     (case keyset_Public c keyHandle of
        Inl err \<Rightarrow> Inl err
      | Inr pubKH \<Rightarrow>
        (case keyset_WriteWithNoSecrets c pubKH of
           Inl err \<Rightarrow> Inl err
         | Inr buf \<Rightarrow> Inr buf))"

text \<open>
  \<^verbatim>\<open>fmt.Sprintf("cannot read data for keysetID %s: %s", kid, storage.ErrDataNotFound)\<close>:
  the one message of a key manager error that \<^verbatim>\<open>Unpack\<close> reads as "key not found".
\<close>

definition notFoundMessage :: "('h, 'pk, 'e) collaborators \<Rightarrow> string \<Rightarrow> string" where
  "notFoundMessage c kid =
     ''cannot read data for keysetID '' @ kid @ '': '' @ storage_ErrDataNotFound c"

text \<open>
  The calls \<^verbatim>\<open>Unpack\<close> makes on its collaborators while it walks the recipients, in
  the order it makes them: a key manager lookup by key id, a decryption attempt at
  recipient index \<open>i\<close>, an export of the public key at index \<open>i\<close>.
\<close>

datatype call = KMS_Get string | Decrypt nat | Export nat

text \<open>
  The loop \<^verbatim>\<open>for i := range jwe.Recipients\<close> of \<^verbatim>\<open>Unpack\<close>, over the indices still to
  visit, with the calls made so far. The debug log line of the "not found" branch is
  left out (it changes nothing the function returns).
\<close>

fun Unpack_loop ::
  "('h, 'pk, 'e) collaborators \<Rightarrow> 'h Packer \<Rightarrow> JSONWebEncryption \<Rightarrow> nat list \<Rightarrow> call list
     \<Rightarrow> call list \<times> (error + Envelope)" where
  "Unpack_loop c p jwe [] tr =
     (tr, Inl (Error ''anoncrypt Unpack: no matching recipient in envelope''))"
| "Unpack_loop c p jwe (i # rest) tr =
     (case getKID i jwe of
        Inl (Error err) \<Rightarrow> (tr, Inl (Error (''anoncrypt Unpack: '' @ err)))
      | Inl (Panic v) \<Rightarrow> (tr, Inl (Panic v))
      | Inr kid \<Rightarrow>
        (case kms p kid of
           Inl err \<Rightarrow>
             if strings_EqualFold c err (notFoundMessage c kid)
             then Unpack_loop c p jwe rest (tr @ [KMS_Get kid])
             else (tr @ [KMS_Get kid],
                   Inl (Error (''anoncrypt Unpack: failed to get key from kms: '' @ err)))
         | Inr kh \<Rightarrow>
           (case kh of
              OtherType \<Rightarrow>
                (tr @ [KMS_Get kid], Inl (Error ''anoncrypt Unpack: invalid keyset handle''))
            | KeysetHandle keyHandle \<Rightarrow>
              (case jose_Decrypt c keyHandle jwe of
                 Inl err \<Rightarrow>
                   (tr @ [KMS_Get kid, Decrypt i],
                    Inl (Error (''anoncrypt Unpack: failed to decrypt JWE envelope: '' @ err)))
               | Inr pt \<Rightarrow>
                 (case exportPubKeyBytes c keyHandle of
                    Inl err \<Rightarrow>
                      (tr @ [KMS_Get kid, Decrypt i, Export i],
                       Inl (Error (''anoncrypt Unpack: failed to export public key bytes: ''
                                   @ err)))
                  | Inr ecdhesPubKeyByes \<Rightarrow>
                      (tr @ [KMS_Get kid, Decrypt i, Export i],
                       Inr \<lparr>Message = pt, ToVerKey = ecdhesPubKeyByes\<rparr>))))))"

definition Unpack ::
  "('h, 'pk, 'e) collaborators \<Rightarrow> 'h Packer \<Rightarrow> bytes \<Rightarrow> call list \<times> (error + Envelope)" where
  "Unpack c p envelope =
     (case jose_Deserialize c envelope of
        Inl err \<Rightarrow>
          ([], Inl (Error (''anoncrypt Unpack: failed to deserialize JWE message: '' @ err)))
      | Inr jwe \<Rightarrow> Unpack_loop c p jwe [0 ..< length (Recipients jwe)] [])"


section \<open>The DID Exchange controller command\<close>

text \<open>
  The error codes of the command, in the order of the constant block (consecutive
  integers from \<^verbatim>\<open>command.DIDExchange\<close> on, so pairwise different), and a
  \<^verbatim>\<open>command.Error\<close>: a validation error or an execute error, with its code and the
  message of the error it wraps.
\<close>

datatype Code =
  InvalidRequestErrorCode
| CreateInvitationErrorCode
| CreateImplicitInvitationErrorCode
| ReceiveInvitationErrorCode
| AcceptInvitationErrorCode
| AcceptExchangeRequestErrorCode
| QueryConnectionsErrorCode
| RemoveConnectionErrorCode

datatype command_Error = ValidationError Code string | ExecuteError Code string

definition errEmptyInviterDID :: string where
  "errEmptyInviterDID = ''empty inviter DID''"

definition errEmptyConnID :: string where
  "errEmptyConnID = ''empty connection ID''"

text \<open>
  The request arguments, with the fields the handlers read. The three argument types
  with a field \<^verbatim>\<open>ID\<close> share it here: \<^verbatim>\<open>AcceptInvitationArgs\<close> and
  \<^verbatim>\<open>AcceptExchangeRequestArgs\<close> are a \<^verbatim>\<open>ConnectionIDArg\<close> with a field \<^verbatim>\<open>Public\<close>.
\<close>

record ConnectionIDArg =
  ID :: string

record AcceptInvitationArgs = ConnectionIDArg +
  Public :: string

type_synonym AcceptExchangeRequestArgs = AcceptInvitationArgs

record ImplicitInvitationArgs =
  InviterDID :: string
  InviterLabel :: string
  InviteeDID :: string
  InviteeLabel :: string

record DIDInfo =
  DID :: string
  Label :: string

text \<open>
  The calls a handler makes on \<^verbatim>\<open>c.client\<close>, with their arguments, and what a
  handler writes to \<^verbatim>\<open>rw\<close> (\<open>'conn\<close> is a connection record of the client).
\<close>

datatype client_call =
  Call_AcceptInvitation string string string
| Call_AcceptExchangeRequest string string string
| Call_GetConnection string
| Call_RemoveConnection string
| Call_CreateImplicitInvitationWithDID DIDInfo DIDInfo
| Call_CreateImplicitInvitation string string

datatype 'conn response =
  AcceptInvitationResponse string
| ImplicitInvitationResponse string
| ExchangeResponse string
| QueryConnectionResponse 'conn

text \<open>
  The client, by what each of its methods answers (\<open>None\<close> for a nil error), and
  \<^verbatim>\<open>json.NewDecoder(req).Decode(&request)\<close> for each argument type; both are
  parameters of the handlers.
\<close>

record 'conn Client =
  client_AcceptInvitation :: "string \<Rightarrow> string \<Rightarrow> string \<Rightarrow> string option"
  client_AcceptExchangeRequest :: "string \<Rightarrow> string \<Rightarrow> string \<Rightarrow> string option"
  client_GetConnection :: "string \<Rightarrow> string + 'conn"
  client_RemoveConnection :: "string \<Rightarrow> string option"
  client_CreateImplicitInvitationWithDID :: "DIDInfo \<Rightarrow> DIDInfo \<Rightarrow> string + string"
  client_CreateImplicitInvitation :: "string \<Rightarrow> string \<Rightarrow> string + string"

record Decoder =
  Decode_AcceptInvitationArgs :: "bytes \<Rightarrow> string + AcceptInvitationArgs"
  Decode_ImplicitInvitationArgs :: "bytes \<Rightarrow> string + ImplicitInvitationArgs"
  Decode_AcceptExchangeRequestArgs :: "bytes \<Rightarrow> string + AcceptExchangeRequestArgs"
  Decode_ConnectionIDArg :: "bytes \<Rightarrow> string + ConnectionIDArg"

record 'conn Command =
  client :: "'conn Client"
  defaultLabel :: string

text \<open>
  What running a handler on a request comes to: the \<^verbatim>\<open>command.Error\<close> it returns
  (\<open>None\<close> for nil), the calls it made on the client, and what it wrote to \<^verbatim>\<open>rw\<close>.
  Log lines are left out.
\<close>

record 'conn outcome =
  returned :: "command_Error option"
  client_calls :: "client_call list"
  written :: "'conn response list"

definition AcceptInvitation :: "'conn Command \<Rightarrow> Decoder \<Rightarrow> bytes \<Rightarrow> 'conn outcome" where
  "AcceptInvitation c json req =
     (case Decode_AcceptInvitationArgs json req of
        Inl err \<Rightarrow>
          \<lparr>returned = Some (ValidationError InvalidRequestErrorCode err),
           client_calls = [], written = []\<rparr>
      | Inr request \<Rightarrow>
          if ID request = [] then
            \<lparr>returned = Some (ValidationError InvalidRequestErrorCode errEmptyConnID),
             client_calls = [], written = []\<rparr>
          else
            (case client_AcceptInvitation (client c) (ID request)
                    (Public request) (defaultLabel c) of
               Some err \<Rightarrow>
                 \<lparr>returned = Some (ExecuteError AcceptInvitationErrorCode err),
                  client_calls = [Call_AcceptInvitation (ID request)
                                    (Public request) (defaultLabel c)],
                  written = []\<rparr>
             | None \<Rightarrow>
                 \<lparr>returned = None,
                  client_calls = [Call_AcceptInvitation (ID request)
                                    (Public request) (defaultLabel c)],
                  written = [AcceptInvitationResponse (ID request)]\<rparr>))"

definition CreateImplicitInvitation ::
  "'conn Command \<Rightarrow> Decoder \<Rightarrow> bytes \<Rightarrow> 'conn outcome" where
  "CreateImplicitInvitation c json req =
     (case Decode_ImplicitInvitationArgs json req of
        Inl err \<Rightarrow>
          \<lparr>returned = Some (ValidationError InvalidRequestErrorCode err),
           client_calls = [], written = []\<rparr>
      | Inr request \<Rightarrow>
          if InviterDID request = [] then
            \<lparr>returned = Some (ValidationError InvalidRequestErrorCode errEmptyInviterDID),
             client_calls = [], written = []\<rparr>
          else
            (let inviter = \<lparr>DID = InviterDID request, Label = InviterLabel request\<rparr>;
                 invitee = \<lparr>DID = InviteeDID request, Label = InviteeLabel request\<rparr>;
                 call = (if InviteeDID request \<noteq> []
                         then Call_CreateImplicitInvitationWithDID inviter invitee
                         else Call_CreateImplicitInvitation (Label inviter) (DID inviter))
             in case (if InviteeDID request \<noteq> []
                      then client_CreateImplicitInvitationWithDID (client c) inviter invitee
                      else client_CreateImplicitInvitation (client c) (Label inviter)
                             (DID inviter)) of
                  Inl err \<Rightarrow>
                    \<lparr>returned = Some (ExecuteError CreateImplicitInvitationErrorCode err),
                     client_calls = [call], written = []\<rparr>
                | Inr id' \<Rightarrow>
                    \<lparr>returned = None, client_calls = [call],
                     written = [ImplicitInvitationResponse id']\<rparr>))"

definition AcceptExchangeRequest ::
  "'conn Command \<Rightarrow> Decoder \<Rightarrow> bytes \<Rightarrow> 'conn outcome" where
  "AcceptExchangeRequest c json req =
     (case Decode_AcceptExchangeRequestArgs json req of
        Inl err \<Rightarrow>
          \<lparr>returned = Some (ValidationError InvalidRequestErrorCode err),
           client_calls = [], written = []\<rparr>
      | Inr request \<Rightarrow>
          if ID request = [] then
            \<lparr>returned = Some (ValidationError InvalidRequestErrorCode errEmptyConnID),
             client_calls = [], written = []\<rparr>
          else
            (case client_AcceptExchangeRequest (client c) (ID request)
                    (Public request) (defaultLabel c) of
               Some err \<Rightarrow>
                 \<lparr>returned = Some (ExecuteError AcceptExchangeRequestErrorCode err),
                  client_calls = [Call_AcceptExchangeRequest
                                    (ID request)
                                    (Public request) (defaultLabel c)],
                  written = []\<rparr>
             | None \<Rightarrow>
                 \<lparr>returned = None,
                  client_calls = [Call_AcceptExchangeRequest
                                    (ID request)
                                    (Public request) (defaultLabel c)],
                  written = [ExchangeResponse (ID request)]\<rparr>))"

definition QueryConnectionByID ::
  "'conn Command \<Rightarrow> Decoder \<Rightarrow> bytes \<Rightarrow> 'conn outcome" where
  "QueryConnectionByID c json req =
     (case Decode_ConnectionIDArg json req of
        Inl err \<Rightarrow>
          \<lparr>returned = Some (ValidationError InvalidRequestErrorCode err),
           client_calls = [], written = []\<rparr>
      | Inr request \<Rightarrow>
          if ID request = [] then
            \<lparr>returned = Some (ValidationError InvalidRequestErrorCode errEmptyConnID),
             client_calls = [], written = []\<rparr>
          else
            (case client_GetConnection (client c) (ID request) of
               Inl err \<Rightarrow>
                 \<lparr>returned = Some (ExecuteError QueryConnectionsErrorCode err),
                  client_calls = [Call_GetConnection (ID request)],
                  written = []\<rparr>
             | Inr result \<Rightarrow>
                 \<lparr>returned = None,
                  client_calls = [Call_GetConnection (ID request)],
                  written = [QueryConnectionResponse result]\<rparr>))"

definition RemoveConnection ::
  "'conn Command \<Rightarrow> Decoder \<Rightarrow> bytes \<Rightarrow> 'conn outcome" where
  "RemoveConnection c json req =
     (case Decode_ConnectionIDArg json req of
        Inl err \<Rightarrow>
          \<lparr>returned = Some (ValidationError InvalidRequestErrorCode err),
           client_calls = [], written = []\<rparr>
      | Inr request \<Rightarrow>
          if ID request = [] then
            \<lparr>returned = Some (ValidationError InvalidRequestErrorCode errEmptyConnID),
             client_calls = [], written = []\<rparr>
          else
            (case client_RemoveConnection (client c) (ID request) of
               Some err \<Rightarrow>
                 \<lparr>returned = Some (ExecuteError RemoveConnectionErrorCode err),
                  client_calls = [Call_RemoveConnection (ID request)],
                  written = []\<rparr>
             | None \<Rightarrow>
                 \<lparr>returned = None,
                  client_calls = [Call_RemoveConnection (ID request)],
                  written = []\<rparr>))"

section \<open>The action dispatcher of the controller command\<close>

text \<open>
  A message payload (\<^verbatim>\<open>service.DIDCommMsgMap\<close>, a Go map) is a reference: the store
  holds the payloads, a reference is an index into it. A \<^verbatim>\<open>DIDCommAction\<close> is a struct
  that holds such a reference in its field \<^verbatim>\<open>Message\<close>; sending the struct on a channel
  copies the struct and so shares the payload it refers to.
\<close>

type_synonym DIDCommMsgMap = "(string \<times> string) list"

type_synonym store = "DIDCommMsgMap list"

record DIDCommAction =
  ProtocolName :: string
  Message_ref :: nat

text \<open>
  Modelled from the spec: \<^verbatim>\<open>Message.Clone()\<close> of the service package, which is not among
  the sources. The spec has each subscriber receive "an independently mutable copy of the
  message payload (deep-cloned)": the clone is a new payload in the store with the
  content the original has at the time of the call. A reference to nothing (a nil
  message) makes the call panic.
\<close>

definition Clone :: "store \<Rightarrow> nat \<Rightarrow> (store \<times> nat) option" where
  "Clone st r = (if r < length st then Some (st @ [st ! r], length st) else None)"

text \<open>
  The subscriber channels built by \<^verbatim>\<open>New\<close>: the first is registered with the web
  notifier (the application's subscriber), the second exists only with
  \<^verbatim>\<open>autoAccept\<close> and is read by \<^verbatim>\<open>service.AutoExecuteActionEvent\<close>.
\<close>

datatype subscriber = Application | AutoAccept

definition subscribers :: "bool \<Rightarrow> subscriber list" where
  "subscribers autoAccept = (if autoAccept then [Application] @ [AutoAccept] else [Application])"

text \<open>
  The state the broadcast works on: the store, and the sends completed so far, each with
  the receiving subscriber and the action as sent.
\<close>

record world =
  payloads :: store
  delivered :: "(subscriber \<times> DIDCommAction) list"

text \<open>
  The body of the inner loop of the goroutine started by \<^verbatim>\<open>New\<close>, for the subscriber
  at hand: \<^verbatim>\<open>action.Message = action.Message.Clone(); subscribers[i] <- action\<close>. The
  clone is assigned to the loop variable \<^verbatim>\<open>action\<close>, which is what the next iteration
  sees; the send hands a copy of the struct, and with it the reference to the clone, to
  the subscriber.
\<close>

definition loop_body ::
  "subscriber \<Rightarrow> DIDCommAction \<Rightarrow> world \<Rightarrow> (DIDCommAction \<times> world) option" where
  "loop_body sub action w =
     (case Clone (payloads w) (Message_ref action) of
        None \<Rightarrow> None
      | Some (st, r) \<Rightarrow>
          Some (action\<lparr>Message_ref := r\<rparr>,
                \<lparr>payloads = st,
                 delivered = delivered w @ [(sub, action\<lparr>Message_ref := r\<rparr>)]\<rparr>))"

text \<open>
  The inner loop \<^verbatim>\<open>for i := range subscribers\<close> for one action, and the outer loop
  \<^verbatim>\<open>for action := range actions\<close>.
\<close>

fun broadcast :: "subscriber list \<Rightarrow> DIDCommAction \<Rightarrow> world \<Rightarrow> world option" where
  "broadcast [] action w = Some w"
| "broadcast (sub # subs) action w =
     (case loop_body sub action w of
        None \<Rightarrow> None
      | Some (action', w') \<Rightarrow> broadcast subs action' w')"

fun dispatch :: "subscriber list \<Rightarrow> DIDCommAction list \<Rightarrow> world \<Rightarrow> world option" where
  "dispatch subs [] w = Some w"
| "dispatch subs (action # actions) w =
     (case broadcast subs action w of
        None \<Rightarrow> None
      | Some w' \<Rightarrow> dispatch subs actions w')"

text \<open>
  A subscriber changes the payload it holds a reference to. The channels are
  unbuffered: a send returns once the subscriber has taken the action, and from then on
  the subscriber runs beside the loop. \<open>broadcast_beside edit\<close> is the inner loop in the
  schedule where each subscriber \<open>sub\<close> makes its change \<open>edit sub\<close> to its copy as soon as
  it has received it, before the loop goes on.
\<close>

definition mutate :: "nat \<Rightarrow> (DIDCommMsgMap \<Rightarrow> DIDCommMsgMap) \<Rightarrow> world \<Rightarrow> world" where
  "mutate r f w = w\<lparr>payloads := (payloads w)[r := f (payloads w ! r)]\<rparr>"

fun broadcast_beside ::
  "(subscriber \<Rightarrow> DIDCommMsgMap \<Rightarrow> DIDCommMsgMap) \<Rightarrow> subscriber list \<Rightarrow> DIDCommAction
     \<Rightarrow> world \<Rightarrow> world option" where
  "broadcast_beside edit [] action w = Some w"
| "broadcast_beside edit (sub # subs) action w =
     (case loop_body sub action w of
        None \<Rightarrow> None
      | Some (action', w') \<Rightarrow>
          broadcast_beside edit subs action' (mutate (Message_ref action') (edit sub) w'))"

text \<open>The payloads a subscriber holds, one for each action it was sent.\<close>

definition received :: "world \<Rightarrow> subscriber \<Rightarrow> DIDCommMsgMap list" where
  "received w sub =
     map (\<lambda>sa. payloads w ! Message_ref (snd sa)) (filter (\<lambda>sa. fst sa = sub) (delivered w))"

section \<open>The JOSE layer, the key sets and the key manager, after the specification\<close>

text \<open>
  The packages \<^verbatim>\<open>jose\<close>, \<^verbatim>\<open>keyio\<close> and \<^verbatim>\<open>kms\<close> are not among the sources. For the
  statements about \<^verbatim>\<open>Pack\<close> and \<^verbatim>\<open>Unpack\<close> together they are modelled here from the
  words of the specification, over cryptographic primitives and encodings that stay
  parameters: key agreement with key wrap, authenticated encryption, the random draws of
  one encryption, base64url, and the JSON encodings of the protected headers and of the
  full-form object.
\<close>

text \<open>A key set handle holds a private key (over \<open>'sk\<close>) or only a public key.\<close>

datatype ('sk, 'pk) Handle = PrivateKeys 'sk | PublicKeys 'pk

text \<open>
  The full-form object of the wire format: \<^verbatim>\<open>protected\<close>, \<^verbatim>\<open>recipients[]\<close> (each
  \<^verbatim>\<open>header.kid\<close> and \<^verbatim>\<open>encrypted_key\<close>), \<^verbatim>\<open>iv\<close>, \<^verbatim>\<open>ciphertext\<close>, \<^verbatim>\<open>tag\<close>.
\<close>

record rawJSONWebEncryption =
  raw_protected :: string
  raw_recipients :: "(string \<times> string) list"
  raw_iv :: string
  raw_ciphertext :: string
  raw_tag :: string

text \<open>
  The primitives: the public key of a private key and the key id a public key is
  addressed by; wrapping the content-encryption key for a recipient's public key (key
  agreement with an ephemeral key, then key wrap) and unwrapping it with a private key;
  sealing and opening with a content-encryption key and an initialization vector
  (ciphertext and tag); the content-encryption key and the vector drawn for one
  encryption; the header values naming the key agreement and the ephemeral key; the
  encoding of recipient keys; base64url; the JSON of the protected headers and of the
  full-form object; the message of \<^verbatim>\<open>storage.ErrDataNotFound\<close>; and
  \<^verbatim>\<open>strings.EqualFold\<close>.
\<close>

record ('sk, 'pk) primitives =
  publicKey :: "'sk \<Rightarrow> 'pk"
  keyID :: "'pk \<Rightarrow> string"
  wrapKey :: "'pk \<Rightarrow> bytes \<Rightarrow> bytes"
  unwrapKey :: "'sk \<Rightarrow> bytes \<Rightarrow> bytes option"
  aead_seal :: "bytes \<Rightarrow> bytes \<Rightarrow> bytes \<Rightarrow> bytes \<times> bytes"
  aead_open :: "bytes \<Rightarrow> bytes \<Rightarrow> bytes \<Rightarrow> bytes \<Rightarrow> bytes option"
  random_cek :: bytes
  random_iv :: bytes
  keyAgreementAlg :: string
  ephemeralKey :: string
  decodeKey :: "bytes \<Rightarrow> string + 'pk"
  encodeKey :: "'pk \<Rightarrow> bytes"
  base64url :: "bytes \<Rightarrow> string"
  base64url_decode :: "string \<Rightarrow> bytes option"
  marshalHeaders :: "Headers \<Rightarrow> string"
  unmarshalHeaders :: "string \<Rightarrow> Headers option"
  marshalJWE :: "rawJSONWebEncryption \<Rightarrow> string"
  unmarshalJWE :: "string \<Rightarrow> rawJSONWebEncryption option"
  errDataNotFound :: string
  equalFold :: "string \<Rightarrow> string \<Rightarrow> bool"

text \<open>
  What the primitives are taken to satisfy. A wrapped key unwraps with the private key
  of the public key it was wrapped for, and with no other; what was sealed under a key
  and an initialization vector opens under them.
\<close>

definition crypto_correct :: "('sk, 'pk) primitives \<Rightarrow> bool" where
  "crypto_correct P =
     ((\<forall>sk cek. unwrapKey P sk (wrapKey P (publicKey P sk) cek) = Some cek) \<and>
      (\<forall>sk pk cek. publicKey P sk \<noteq> pk \<longrightarrow> unwrapKey P sk (wrapKey P pk cek) = None) \<and>
      (\<forall>cek iv pt. aead_open P cek iv (fst (aead_seal P cek iv pt))
                      (snd (aead_seal P cek iv pt)) = Some pt))"

text \<open>
  Base64url text decodes to what was encoded and has neither a dot nor a brace in it; the
  JSON of the protected headers reads back with the same members; the JSON of the
  full-form object reads back as the same object and is text that opens with a brace.
\<close>

definition codec_correct :: "('sk, 'pk) primitives \<Rightarrow> bool" where
  "codec_correct P =
     ((\<forall>x. base64url_decode P (base64url P x) = Some x) \<and>
      (\<forall>x. CHR ''.'' \<notin> set (base64url P x) \<and> CHR ''{'' \<notin> set (base64url P x)) \<and>
      (\<forall>h. \<exists>h'. unmarshalHeaders P (marshalHeaders P h) = Some h' \<and> map_of h' = map_of h) \<and>
      (\<forall>r. unmarshalJWE P (marshalJWE P r) = Some r) \<and>
      (\<forall>r. \<exists>t. marshalJWE P r = CHR ''{'' # t))"

text \<open>\<^verbatim>\<open>strings.EqualFold\<close> equates every text with itself.\<close>

definition fold_reflexive :: "('sk, 'pk) primitives \<Rightarrow> bool" where
  "fold_reflexive P = (\<forall>s. equalFold P s s)"

text \<open>Segments joined by dots, and a text split at its dots.\<close>

fun joinDot :: "string list \<Rightarrow> string" where
  "joinDot [] = []"
| "joinDot [s] = s"
| "joinDot (s # t # ss) = s @ CHR ''.'' # joinDot (t # ss)"

fun splitDot :: "string \<Rightarrow> string list" where
  "splitDot [] = [[]]"
| "splitDot (c # cs) =
     (if c = CHR ''.'' then [] # splitDot cs
      else (case splitDot cs of [] \<Rightarrow> [[c]] | s # ss \<Rightarrow> (c # s) # ss))"

text \<open>
  Modelled from the spec: \<^verbatim>\<open>jose.NewJWEEncrypt\<close>, not among the sources. "Builds an
  anonymous (sender-unauthenticated) encrypter bound to the full recipient set": the
  encrypter is the content-encryption algorithm with the recipients' keys.
\<close>

definition spec_NewJWEEncrypt :: "string \<Rightarrow> 'pk list \<Rightarrow> string + string \<times> 'pk list" where
  "spec_NewJWEEncrypt alg recipients = Inr (alg, recipients)"

text \<open>
  Modelled from the spec: \<^verbatim>\<open>JWEEncrypt.Encrypt\<close>, not among the sources. "Encrypts
  payload once; wraps the content-encryption key once per recipient", with "a shared
  content-encryption key wrapped individually for each recipient"; the protected header
  declares the "content-encryption algorithm, key-agreement algorithm, epk", and there is
  one "{keyID, encryptedContentKey}" entry per recipient, in the order of the keys.
\<close>

definition spec_Encrypt ::
  "('sk, 'pk) primitives \<Rightarrow> string \<times> 'pk list \<Rightarrow> bytes \<Rightarrow> string + JSONWebEncryption" where
  "spec_Encrypt P e payload =
     Inr \<lparr>ProtectedHeaders =
            [(''enc'', fst e), (''alg'', keyAgreementAlg P), (''epk'', ephemeralKey P)],
          Recipients =
            map (\<lambda>pk. Some \<lparr>Header = Some \<lparr>KID = keyID P pk\<rparr>,
                             EncryptedKey = wrapKey P pk (random_cek P)\<rparr>) (snd e),
          IV = random_iv P,
          Ciphertext = fst (aead_seal P (random_cek P) (random_iv P) payload),
          Tag = snd (aead_seal P (random_cek P) (random_iv P) payload)\<rparr>"

text \<open>
  Modelled from the spec: \<^verbatim>\<open>CompactSerialize\<close>, not among the sources. The "compact form
  (single string: header.encryptedKey.iv.ciphertext.tag, each segment base64url)", which
  "carries a single implicit recipient whose key id is embedded in protected".
\<close>

definition spec_CompactSerialize ::
  "('sk, 'pk) primitives \<Rightarrow> JSONWebEncryption \<Rightarrow> string + string" where
  "spec_CompactSerialize P jwe =
     (case Recipients jwe of
        [Some r] \<Rightarrow>
          (case Header r of
             None \<Rightarrow> Inl ''compact serialization: recipient without a header''
           | Some h \<Rightarrow>
               Inr (joinDot
                 [base64url P (marshalHeaders P ((''kid'', KID h) # ProtectedHeaders jwe)),
                  base64url P (EncryptedKey r),
                  base64url P (IV jwe),
                  base64url P (Ciphertext jwe),
                  base64url P (Tag jwe)]))
      | _ \<Rightarrow> Inl ''compact serialization needs exactly one recipient'')"

text \<open>
  Modelled from the spec: the entry of one recipient in the full form, "each:
  \<^verbatim>\<open>header.kid\<close>, \<^verbatim>\<open>encrypted_key\<close>", the latter base64url. A recipient that is nil or has
  no header has no entry.
\<close>

definition raw_recipient :: "('sk, 'pk) primitives \<Rightarrow> Recipient option \<Rightarrow> (string \<times> string) option" where
  "raw_recipient P r =
     (case r of
        None \<Rightarrow> None
      | Some r' \<Rightarrow>
          (case Header r' of
             None \<Rightarrow> None
           | Some h \<Rightarrow> Some (KID h, base64url P (EncryptedKey r'))))"

text \<open>
  Modelled from the spec: \<^verbatim>\<open>FullSerialize\<close>, not among the sources. The "full form
  (structured object listing one {header, encryptedKey} per recipient, shared protected
  header, iv, ciphertext, tag)", the fields "all base64url".
\<close>

definition spec_FullSerialize ::
  "('sk, 'pk) primitives \<Rightarrow> JSONWebEncryption \<Rightarrow> string + string" where
  "spec_FullSerialize P jwe =
     (case those (map (raw_recipient P) (Recipients jwe)) of
        None \<Rightarrow> Inl ''full serialization: recipient without a header''
      | Some rs \<Rightarrow>
          Inr (marshalJWE P
            \<lparr>raw_protected = base64url P (marshalHeaders P (ProtectedHeaders jwe)),
             raw_recipients = rs,
             raw_iv = base64url P (IV jwe),
             raw_ciphertext = base64url P (Ciphertext jwe),
             raw_tag = base64url P (Tag jwe)\<rparr>))"

text \<open>
  Modelled from the spec: reading back the fields of either form: the protected header is
  "base64url JSON", a recipient entry is its key id and its base64url encrypted key.
\<close>

definition decodeHeaders :: "('sk, 'pk) primitives \<Rightarrow> string \<Rightarrow> Headers option" where
  "decodeHeaders P s =
     (case base64url_decode P s of None \<Rightarrow> None | Some j \<Rightarrow> unmarshalHeaders P j)"

definition decodeRecipient :: "('sk, 'pk) primitives \<Rightarrow> string \<times> string \<Rightarrow> Recipient option option" where
  "decodeRecipient P r =
     (case base64url_decode P (snd r) of
        None \<Rightarrow> None
      | Some ek \<Rightarrow> Some (Some \<lparr>Header = Some \<lparr>KID = fst r\<rparr>, EncryptedKey = ek\<rparr>))"

text \<open>
  Modelled from the spec: \<^verbatim>\<open>jose.Deserialize\<close>, not among the sources. It "detects compact
  vs full form structurally and parses into an ordered list of per-recipient (keyID,
  encryptedContentKey) entries (length 1 for compact)": a text that opens with a brace is
  read as the full-form object, any other text as five segments between dots.
\<close>

definition spec_Deserialize ::
  "('sk, 'pk) primitives \<Rightarrow> string \<Rightarrow> string + JSONWebEncryption" where
  "spec_Deserialize P s =
     (if s \<noteq> [] \<and> hd s = CHR ''{'' then
        (case unmarshalJWE P s of
           None \<Rightarrow> Inl ''invalid full-form JWE''
         | Some raw \<Rightarrow>
             (case (decodeHeaders P (raw_protected raw),
                    those (map (decodeRecipient P) (raw_recipients raw)),
                    base64url_decode P (raw_iv raw),
                    base64url_decode P (raw_ciphertext raw),
                    base64url_decode P (raw_tag raw)) of
                (Some hs, Some rs, Some iv, Some ct, Some tag) \<Rightarrow>
                  Inr \<lparr>ProtectedHeaders = hs, Recipients = rs, IV = iv, Ciphertext = ct,
                       Tag = tag\<rparr>
              | _ \<Rightarrow> Inl ''invalid full-form JWE''))
      else
        (case splitDot s of
           [p, ek, iv, ct, tag] \<Rightarrow>
             (case (decodeHeaders P p, base64url_decode P ek, base64url_decode P iv,
                    base64url_decode P ct, base64url_decode P tag) of
                (Some hs, Some ek', Some iv', Some ct', Some tag') \<Rightarrow>
                  Inr \<lparr>ProtectedHeaders = hs,
                       Recipients = [Some \<lparr>Header = map_option (\<lambda>k. \<lparr>KID = k\<rparr>) (KeyID hs),
                                           EncryptedKey = ek'\<rparr>],
                       IV = iv', Ciphertext = ct', Tag = tag'\<rparr>
              | _ \<Rightarrow> Inl ''invalid compact JWE'')
         | _ \<Rightarrow> Inl ''invalid compact JWE''))"

text \<open>
  Modelled from the spec: "unwrap the content-encryption key via key agreement". The
  decrypter is given the key handle and the whole envelope, not the recipient at hand, so
  the content-encryption key is that of the first recipient entry that unwraps with the
  key.
\<close>

fun unwrapFirst :: "('sk, 'pk) primitives \<Rightarrow> 'sk \<Rightarrow> Recipient option list \<Rightarrow> bytes option" where
  "unwrapFirst P sk [] = None"
| "unwrapFirst P sk (r # rs) =
     (case r of
        None \<Rightarrow> unwrapFirst P sk rs
      | Some r' \<Rightarrow>
          (case unwrapKey P sk (EncryptedKey r') of
             None \<Rightarrow> unwrapFirst P sk rs
           | Some cek \<Rightarrow> Some cek))"

text \<open>
  Modelled from the spec: \<^verbatim>\<open>JWEDecrypt.Decrypt\<close>, not among the sources. "Unwrap the
  content-encryption key via key agreement, then attempt AEAD decryption of the
  ciphertext"; decryption fails on an "authentication-tag mismatch" or a "corrupted
  ciphertext".
\<close>

definition spec_Decrypt ::
  "('sk, 'pk) primitives \<Rightarrow> ('sk, 'pk) Handle \<Rightarrow> JSONWebEncryption \<Rightarrow> string + bytes" where
  "spec_Decrypt P keyHandle jwe =
     (case keyHandle of
        PublicKeys pk \<Rightarrow> Inl ''decryption needs a private key''
      | PrivateKeys sk \<Rightarrow>
          (case unwrapFirst P sk (Recipients jwe) of
             None \<Rightarrow> Inl ''no content-encryption key unwraps with the key''
           | Some cek \<Rightarrow>
               (case aead_open P cek (IV jwe) (Ciphertext jwe) (Tag jwe) of
                  None \<Rightarrow> Inl ''authentication tag mismatch''
                | Some pt \<Rightarrow> Inr pt)))"

text \<open>
  Modelled from the spec: \<^verbatim>\<open>keyset.Handle.Public\<close>, not among the sources. Unpack is to
  "export the matched recipient's own public key bytes": the public handle of a private
  key handle holds its public key.
\<close>

definition spec_Public :: "('sk, 'pk) primitives \<Rightarrow> ('sk, 'pk) Handle \<Rightarrow> string + ('sk, 'pk) Handle" where
  "spec_Public P keyHandle =
     (case keyHandle of
        PrivateKeys sk \<Rightarrow> Inr (PublicKeys (publicKey P sk))
      | PublicKeys pk \<Rightarrow> Inl ''keyset contains a non-private key'')"

text \<open>
  Modelled from the spec: \<^verbatim>\<open>WriteWithNoSecrets\<close> through the key writer, not among the
  sources: the "public key bytes" of a handle that holds no private key.
\<close>

definition spec_WriteWithNoSecrets :: "('sk, 'pk) primitives \<Rightarrow> ('sk, 'pk) Handle \<Rightarrow> string + bytes" where
  "spec_WriteWithNoSecrets P keyHandle =
     (case keyHandle of
        PublicKeys pk \<Rightarrow> Inr (encodeKey P pk)
      | PrivateKeys sk \<Rightarrow> Inl ''keyset contains secret key material'')"

text \<open>
  Modelled from the spec: the collaborators of \<^verbatim>\<open>pack.go\<close> as the specification
  describes them, over the primitives \<open>P\<close>.
\<close>

definition spec_collaborators ::
  "('sk, 'pk) primitives \<Rightarrow> (('sk, 'pk) Handle, 'pk, string \<times> 'pk list) collaborators" where
  "spec_collaborators P =
     \<lparr>json_Unmarshal = decodeKey P,
      jose_NewJWEEncrypt = spec_NewJWEEncrypt,
      jose_Encrypt = spec_Encrypt P,
      jose_CompactSerialize = spec_CompactSerialize P,
      jose_FullSerialize = spec_FullSerialize P,
      jose_Deserialize = spec_Deserialize P,
      jose_Decrypt = spec_Decrypt P,
      keyset_Public = spec_Public P,
      keyset_WriteWithNoSecrets = spec_WriteWithNoSecrets P,
      storage_ErrDataNotFound = errDataNotFound P,
      strings_EqualFold = equalFold P\<rparr>"

text \<open>
  Modelled from the spec: the key manager, not among the sources. "Opaque lookup of a
  decryption/encryption key handle by key identifier; may fail with not found"
  (\<^verbatim>\<open>get(keyID) -> handle | NotFound\<close>): a table of private keys by key id that answers a
  missing id with the storage layer's "data not found" for that id.
\<close>

definition spec_kms ::
  "('sk, 'pk) primitives \<Rightarrow> (string \<times> 'sk) list \<Rightarrow> string \<Rightarrow> string + ('sk, 'pk) Handle KeyHandle" where
  "spec_kms P table keysetID =
     (case map_of table keysetID of
        Some sk \<Rightarrow> Inr (KeysetHandle (PrivateKeys sk))
      | None \<Rightarrow>
          Inl (''cannot read data for keysetID '' @ keysetID @ '': '' @ errDataNotFound P))"

section \<open>Vocabulary of the statements about Unpack\<close>

text \<open>
  The key id \<^verbatim>\<open>Unpack\<close> looks up at index \<open>i\<close>, and "the key manager reports the key
  of recipient \<open>i\<close> not found": the lookup fails with the message that \<^verbatim>\<open>Unpack\<close>
  compares by \<^verbatim>\<open>strings.EqualFold\<close>.
\<close>

definition recipientKID :: "JSONWebEncryption \<Rightarrow> nat \<Rightarrow> string" where
  "recipientKID jwe i = (case getKID i jwe of Inr kid \<Rightarrow> kid | Inl e \<Rightarrow> [])"

definition keyNotFound ::
  "('h, 'pk, 'e) collaborators \<Rightarrow> 'h Packer \<Rightarrow> JSONWebEncryption \<Rightarrow> nat \<Rightarrow> bool" where
  "keyNotFound c p jwe i =
     (case getKID i jwe of
        Inl e \<Rightarrow> False
      | Inr kid \<Rightarrow>
        (case kms p kid of
           Inl err \<Rightarrow> strings_EqualFold c err (notFoundMessage c kid)
         | Inr kh \<Rightarrow> False))"

definition lookups :: "JSONWebEncryption \<Rightarrow> nat list \<Rightarrow> call list" where
  "lookups jwe js = map (\<lambda>j. KMS_Get (recipientKID jwe j)) js"

text \<open>
  An envelope \<open>jwe\<close> that carries \<open>payload\<close> for the recipient keys \<open>pks\<close>: one entry per
  key, in order, with the key's id and the content-encryption key wrapped for it, and the
  payload sealed under that content-encryption key.
\<close>

definition addressed_to ::
  "('sk, 'pk) primitives \<Rightarrow> 'pk list \<Rightarrow> bytes \<Rightarrow> JSONWebEncryption \<Rightarrow> bool" where
  "addressed_to P pks payload jwe =
     (Recipients jwe =
        map (\<lambda>pk. Some \<lparr>Header = Some \<lparr>KID = keyID P pk\<rparr>,
                         EncryptedKey = wrapKey P pk (random_cek P)\<rparr>) pks \<and>
      IV jwe = random_iv P \<and>
      Ciphertext jwe = fst (aead_seal P (random_cek P) (random_iv P) payload) \<and>
      Tag jwe = snd (aead_seal P (random_cek P) (random_iv P) payload))"

section \<open>Test doubles\<close>

text \<open>
  Stand-ins for the collaborators, in the manner of the mocks of the package's tests:
  handles and decoded keys are names, an envelope is looked up in a table, a key
  manager is a table from key ids to handles that answers a missing id with the
  storage layer's message, and decryption succeeds with every handle but the one
  named \<^verbatim>\<open>privA\<close>. The stand-in for \<^verbatim>\<open>strings.EqualFold\<close> compares byte by byte
  after folding the letters \<^verbatim>\<open>A\<close>..\<^verbatim>\<open>Z\<close> (65..90) to \<^verbatim>\<open>a\<close>..\<^verbatim>\<open>z\<close>; on the ASCII
  texts of the examples that is what the library function does.
\<close>

definition test_foldByte :: "char \<Rightarrow> nat" where
  "test_foldByte c =
     (let n = (of_char c :: nat) in if 65 \<le> n \<and> n \<le> 90 then n + 32 else n)"

definition test_EqualFold :: "string \<Rightarrow> string \<Rightarrow> bool" where
  "test_EqualFold s t = (map test_foldByte s = map test_foldByte t)"

definition test_recipient :: "string \<Rightarrow> Recipient option" where
  "test_recipient k = Some \<lparr>Header = Some \<lparr>KID = k\<rparr>, EncryptedKey = ''ek-'' @ k\<rparr>"

definition test_jwe :: "string list \<Rightarrow> JSONWebEncryption" where
  "test_jwe kids =
     \<lparr>ProtectedHeaders = (case kids of [k] \<Rightarrow> [(''kid'', k)] | _ \<Rightarrow> []),
      Recipients = map test_recipient kids,
      IV = ''iv'', Ciphertext = ''ct'', Tag = ''tag''\<rparr>"

definition test_collaborators :: "(string, string, string list) collaborators" where
  "test_collaborators =
     \<lparr>json_Unmarshal = (\<lambda>key. if key = [] then Inl ''unexpected end of JSON input''
                               else Inr key),
      jose_NewJWEEncrypt = (\<lambda>alg keys. Inr keys),
      jose_Encrypt = (\<lambda>keys payload. Inr (test_jwe keys)),
      jose_CompactSerialize = (\<lambda>jwe. Inr ''compact''),
      jose_FullSerialize = (\<lambda>jwe. Inr ''full''),
      jose_Deserialize = (\<lambda>s.
         if s = ''envelope-B'' then Inr (test_jwe [''B''])
         else if s = ''envelope-AB'' then Inr (test_jwe [''A'', ''B''])
         else if s = ''envelope-ABC'' then Inr (test_jwe [''A'', ''B'', ''C''])
         else Inl ''invalid compact JWE''),
      jose_Decrypt = (\<lambda>h jwe. if h = ''privA'' then Inl ''ecdhes_factory: decryption failed''
                               else Inr ''secret message''),
      keyset_Public = (\<lambda>h. Inr (''pub-of-'' @ h)),
      keyset_WriteWithNoSecrets = (\<lambda>h. Inr h),
      storage_ErrDataNotFound = ''data not found'',
      strings_EqualFold = test_EqualFold\<rparr>"

definition test_kms :: "(string \<times> string KeyHandle) list \<Rightarrow> string \<Rightarrow> string + string KeyHandle" where
  "test_kms store keysetID =
     (case map_of store keysetID of
        Some kh \<Rightarrow> Inr kh
      | None \<Rightarrow> Inl (''cannot read data for keysetID '' @ keysetID @ '': data not found''))"

definition test_packer :: "(string \<times> string KeyHandle) list \<Rightarrow> string Packer" where
  "test_packer store = \<lparr>kms = test_kms store, encAlg = ''A256GCM''\<rparr>"

text \<open>A key manager that answers every missing key id with the given message.\<close>

definition test_kms_err ::
  "string \<Rightarrow> (string \<times> string KeyHandle) list \<Rightarrow> string \<Rightarrow> string + string KeyHandle" where
  "test_kms_err msg store keysetID =
     (case map_of store keysetID of Some kh \<Rightarrow> Inr kh | None \<Rightarrow> Inl msg)"

text \<open>
  A decoder that reads \<^verbatim>\<open>{}\<close> as the arguments with every field empty and any other
  request as arguments with the request text as identifier, and a client whose
  methods all succeed.
\<close>

definition test_decoder :: Decoder where
  "test_decoder =
     \<lparr>Decode_AcceptInvitationArgs = (\<lambda>req.
        if req = [] then Inl ''EOF''
        else if req = ''{}'' then Inr \<lparr>ID = [], Public = []\<rparr>
        else Inr \<lparr>ID = req, Public = []\<rparr>),
      Decode_ImplicitInvitationArgs = (\<lambda>req.
        if req = [] then Inl ''EOF''
        else if req = ''{}''
        then Inr \<lparr>InviterDID = [], InviterLabel = [], InviteeDID = [], InviteeLabel = []\<rparr>
        else Inr \<lparr>InviterDID = req, InviterLabel = [], InviteeDID = [], InviteeLabel = []\<rparr>),
      Decode_AcceptExchangeRequestArgs = (\<lambda>req.
        if req = [] then Inl ''EOF''
        else if req = ''{}'' then Inr \<lparr>ID = [], Public = []\<rparr>
        else Inr \<lparr>ID = req, Public = []\<rparr>),
      Decode_ConnectionIDArg = (\<lambda>req.
        if req = [] then Inl ''EOF''
        else if req = ''{}'' then Inr \<lparr>ID = []\<rparr>
        else Inr \<lparr>ID = req\<rparr>)\<rparr>"

definition test_command :: "string Command" where
  "test_command =
     \<lparr>client =
        \<lparr>client_AcceptInvitation = (\<lambda>id' public label. None),
         client_AcceptExchangeRequest = (\<lambda>id' public label. None),
         client_GetConnection = (\<lambda>id'. Inr (''connection '' @ id')),
         client_RemoveConnection = (\<lambda>id'. None),
         client_CreateImplicitInvitationWithDID = (\<lambda>inviter invitee. Inr ''conn-1''),
         client_CreateImplicitInvitation = (\<lambda>label did. Inr ''conn-2'')\<rparr>,
      defaultLabel = ''agent''\<rparr>"

text \<open>
  Primitives to run the specified JOSE layer on: keys are numbers and a private key is
  its own public key; a key wrapped for key \<open>n\<close> is the content-encryption key behind
  \<open>n\<close> marks; sealing reverses the plaintext and tags it with key, vector and
  plaintext; base64url is an escaping of dot, brace and underscore; the JSON texts are
  escaped fields between dots.
\<close>

fun test_escape :: "string \<Rightarrow> string" where
  "test_escape [] = []"
| "test_escape (c # cs) =
     (if c = CHR ''.'' then ''_d'' else if c = CHR ''{'' then ''_b''
      else if c = CHR ''_'' then ''__'' else [c]) @ test_escape cs"

fun test_unescape :: "string \<Rightarrow> string option" where
  "test_unescape [] = Some []"
| "test_unescape [c] = (if c = CHR ''_'' then None else Some [c])"
| "test_unescape (c # d # cs) =
     (if c = CHR ''_'' then
        (if d = CHR ''d'' then map_option ((#) CHR ''.'') (test_unescape cs)
         else if d = CHR ''b'' then map_option ((#) CHR ''{'') (test_unescape cs)
         else if d = CHR ''_'' then map_option ((#) CHR ''_'') (test_unescape cs)
         else None)
      else map_option ((#) c) (test_unescape (d # cs)))"

fun pairs :: "'a list \<Rightarrow> ('a \<times> 'a) list option" where
  "pairs [] = Some []"
| "pairs [x] = None"
| "pairs (x # y # zs) = map_option ((#) (x, y)) (pairs zs)"

definition flatten :: "('a \<times> 'a) list \<Rightarrow> 'a list" where
  "flatten kvs = concat (map (\<lambda>kv. [fst kv, snd kv]) kvs)"

definition test_marshalHeaders :: "Headers \<Rightarrow> string" where
  "test_marshalHeaders h = joinDot (''h'' # map test_escape (flatten h))"

definition test_unmarshalHeaders :: "string \<Rightarrow> Headers option" where
  "test_unmarshalHeaders s =
     (case splitDot s of
        [] \<Rightarrow> None
      | t # segs \<Rightarrow>
          if t = ''h'' then
            (case those (map test_unescape segs) of None \<Rightarrow> None | Some xs \<Rightarrow> pairs xs)
          else None)"

definition test_marshalJWE :: "rawJSONWebEncryption \<Rightarrow> string" where
  "test_marshalJWE r =
     CHR ''{'' # joinDot (map test_escape
       ([raw_protected r, raw_iv r, raw_ciphertext r, raw_tag r] @ flatten (raw_recipients r)))"

definition test_unmarshalJWE :: "string \<Rightarrow> rawJSONWebEncryption option" where
  "test_unmarshalJWE s =
     (case s of
        [] \<Rightarrow> None
      | c # t \<Rightarrow>
          if c = CHR ''{'' then
            (case those (map test_unescape (splitDot t)) of
               Some (p # iv # ct # tag # rest) \<Rightarrow>
                 (case pairs rest of
                    None \<Rightarrow> None
                  | Some rs \<Rightarrow>
                      Some \<lparr>raw_protected = p, raw_recipients = rs, raw_iv = iv,
                            raw_ciphertext = ct, raw_tag = tag\<rparr>)
             | _ \<Rightarrow> None)
          else None)"

definition test_unwrapKey :: "nat \<Rightarrow> bytes \<Rightarrow> bytes option" where
  "test_unwrapKey sk w =
     (case dropWhile (\<lambda>c. c = CHR ''w'') w of
        [] \<Rightarrow> None
      | c # cek \<Rightarrow>
          if c = CHR ''|'' \<and> length (takeWhile (\<lambda>c. c = CHR ''w'') w) = sk then Some cek
          else None)"

definition test_primitives :: "(nat, nat) primitives" where
  "test_primitives =
     \<lparr>publicKey = (\<lambda>sk. sk),
      keyID = (\<lambda>pk. ''key-'' @ replicate pk (CHR ''i'')),
      wrapKey = (\<lambda>pk cek. replicate pk (CHR ''w'') @ CHR ''|'' # cek),
      unwrapKey = test_unwrapKey,
      aead_seal = (\<lambda>cek iv pt. (rev pt, cek @ iv @ pt)),
      aead_open = (\<lambda>cek iv ct tag. if tag = cek @ iv @ rev ct then Some (rev ct) else None),
      random_cek = ''cek'',
      random_iv = ''iv'',
      keyAgreementAlg = ''ECDH-ES+A256KW'',
      ephemeralKey = ''epk'',
      decodeKey = (\<lambda>key. if list_all (\<lambda>c. c = CHR ''p'') key then Inr (length key)
                           else Inl ''invalid character'' ),
      encodeKey = (\<lambda>pk. replicate pk (CHR ''p'')),
      base64url = test_escape,
      base64url_decode = test_unescape,
      marshalHeaders = test_marshalHeaders,
      unmarshalHeaders = test_unmarshalHeaders,
      marshalJWE = test_marshalJWE,
      unmarshalJWE = test_unmarshalJWE,
      errDataNotFound = ''data not found'',
      equalFold = test_EqualFold\<rparr>"

section \<open>Properties of Unpack\<close>

lemma test_EqualFold_refl: "test_EqualFold s s"
  by (simp add: test_EqualFold_def)

lemma upt_split_at: "i < n \<Longrightarrow> [0 ..< n] = [0 ..< i] @ i # [Suc i ..< n]"
  using upt_add_eq_append [of 0 i "n - i"] upt_conv_Cons [of i n] by simp

text \<open>Recipients whose keys are reported not found are passed over, one lookup each.\<close>

lemma Unpack_loop_skip:
  "\<forall>j \<in> set js. keyNotFound c p jwe j \<Longrightarrow>
   Unpack_loop c p jwe (js @ rest) tr = Unpack_loop c p jwe rest (tr @ lookups jwe js)"
proof (induction js arbitrary: tr)
  case Nil
  then show ?case by (simp add: lookups_def)
next
  case (Cons j js)
  from Cons.prems have nf: "keyNotFound c p jwe j" and rest: "\<forall>k \<in> set js. keyNotFound c p jwe k"
    by simp_all
  from nf obtain kid err where kid: "getKID j jwe = Inr kid" and err: "kms p kid = Inl err"
    and fold: "strings_EqualFold c err (notFoundMessage c kid)"
    by (auto simp: keyNotFound_def split: sum.splits)
  have "Unpack_loop c p jwe ((j # js) @ rest) tr =
        Unpack_loop c p jwe (js @ rest) (tr @ [KMS_Get kid])"
    using kid err fold by simp
  also have "\<dots> = Unpack_loop c p jwe rest ((tr @ [KMS_Get kid]) @ lookups jwe js)"
    using Cons.IH [OF rest] .
  also have "(tr @ [KMS_Get kid]) @ lookups jwe js = tr @ lookups jwe (j # js)"
    using kid by (simp add: lookups_def recipientKID_def)
  finally show ?case .
qed

text \<open>\<^verbatim>\<open>Unpack\<close> up to the first recipient whose key is not reported missing.\<close>

lemma Unpack_reaches:
  assumes "jose_Deserialize c envelope = Inr jwe"
    and "i < length (Recipients jwe)"
    and "\<forall>j < i. keyNotFound c p jwe j"
  shows "Unpack c p envelope =
         Unpack_loop c p jwe (i # [Suc i ..< length (Recipients jwe)]) (lookups jwe [0 ..< i])"
proof -
  have "\<forall>j \<in> set [0 ..< i]. keyNotFound c p jwe j"
    using assms(3) by simp
  then have "Unpack_loop c p jwe ([0 ..< i] @ i # [Suc i ..< length (Recipients jwe)]) [] =
        Unpack_loop c p jwe (i # [Suc i ..< length (Recipients jwe)]) ([] @ lookups jwe [0 ..< i])"
    by (rule Unpack_loop_skip)
  then show ?thesis
    using assms(1) upt_split_at [OF assms(2)] by (simp add: Unpack_def)
qed

lemmas test_defs =
  test_collaborators_def test_packer_def test_kms_def test_jwe_def test_recipient_def
  keyNotFound_def getKID_def KeyID_def notFoundMessage_def test_EqualFold_def
  test_foldByte_def
  exportPubKeyBytes_def lookups_def recipientKID_def

text \<open>
  Claim C3. \<^verbatim>\<open>Unpack\<close> walks the recipients in wire order and passes over every
  recipient whose key the key manager reports not found. At the first recipient \<open>i\<close>
  whose key is found (a keyset handle \<open>h\<close>) and with which decryption succeeds, it
  returns at once: the message is the plaintext and \<open>ToVerKey\<close> is the public key
  exported from \<open>h\<close>, the handle of recipient \<open>i\<close> itself (\<open>pk\<close>, what
  \<^verbatim>\<open>exportPubKeyBytes\<close> returns for \<open>h\<close>). The calls made are the lookups of
  recipients \<open>0..i\<close>, one decryption and one export; no later recipient is looked up.
\<close>

theorem Unpack_ordered_resolution:
  assumes des: "jose_Deserialize c envelope = Inr jwe"
    and i: "i < length (Recipients jwe)"
    and skip: "\<forall>j < i. keyNotFound c p jwe j"
    and kid: "getKID i jwe = Inr kid"
    and found: "kms p kid = Inr (KeysetHandle h)"
    and dec: "jose_Decrypt c h jwe = Inr pt"
    and exp: "exportPubKeyBytes c h = Inr pk"
  shows "Unpack c p envelope =
         (lookups jwe [0 ..< i] @ [KMS_Get kid, Decrypt i, Export i],
          Inr \<lparr>Message = pt, ToVerKey = pk\<rparr>)"
  using Unpack_reaches [OF des i skip] kid found dec exp by simp

text \<open>
  Recipients \<^verbatim>\<open>[A, B, C]\<close>, only the key of \<^verbatim>\<open>B\<close> in the key manager: the result
  carries the public key of \<^verbatim>\<open>B\<close>'s handle, and \<^verbatim>\<open>C\<close> is never looked up.
\<close>

theorem Unpack_ordered_resolution_witness:
  "Unpack test_collaborators (test_packer [(''B'', KeysetHandle ''privB'')]) ''envelope-ABC'' =
     ([KMS_Get ''A'', KMS_Get ''B'', Decrypt 1, Export 1],
      Inr \<lparr>Message = ''secret message'', ToVerKey = ''pub-of-privB''\<rparr>)"
  using Unpack_ordered_resolution [of test_collaborators "''envelope-ABC''"
      "test_jwe [''A'', ''B'', ''C'']" 1 "test_packer [(''B'', KeysetHandle ''privB'')]"
      "''B''" "''privB''" "''secret message''" "''pub-of-privB''"]
  by (simp add: test_defs)

text \<open>When the export fails instead, that error is returned, also at once.\<close>

lemma Unpack_export_failure:
  assumes des: "jose_Deserialize c envelope = Inr jwe"
    and i: "i < length (Recipients jwe)"
    and skip: "\<forall>j < i. keyNotFound c p jwe j"
    and kid: "getKID i jwe = Inr kid"
    and found: "kms p kid = Inr (KeysetHandle h)"
    and dec: "jose_Decrypt c h jwe = Inr pt"
    and exp: "exportPubKeyBytes c h = Inl err"
  shows "Unpack c p envelope =
         (lookups jwe [0 ..< i] @ [KMS_Get kid, Decrypt i, Export i],
          Inl (Error (''anoncrypt Unpack: failed to export public key bytes: '' @ err)))"
  using Unpack_reaches [OF des i skip] kid found dec exp by simp

text \<open>
  Claim C4. When the key of recipient \<open>i\<close> is found and decryption with it fails,
  \<^verbatim>\<open>Unpack\<close> fails at once with the decryption error ("failed to decrypt JWE
  envelope", the spec's DecryptionFailure), whatever recipients follow and whatever
  keys the key manager holds for them: the calls end with that decryption attempt.
\<close>

theorem Unpack_decrypt_failure_is_fatal:
  assumes des: "jose_Deserialize c envelope = Inr jwe"
    and i: "i < length (Recipients jwe)"
    and skip: "\<forall>j < i. keyNotFound c p jwe j"
    and kid: "getKID i jwe = Inr kid"
    and found: "kms p kid = Inr (KeysetHandle h)"
    and dec: "jose_Decrypt c h jwe = Inl err"
  shows "Unpack c p envelope =
         (lookups jwe [0 ..< i] @ [KMS_Get kid, Decrypt i],
          Inl (Error (''anoncrypt Unpack: failed to decrypt JWE envelope: '' @ err)))"
  using Unpack_reaches [OF des i skip] kid found dec by simp

text \<open>
  Recipients \<^verbatim>\<open>[A, B]\<close>, both keys present; decryption with the handle of \<^verbatim>\<open>A\<close>
  fails and would succeed with the handle of \<^verbatim>\<open>B\<close>. \<^verbatim>\<open>B\<close> is not attempted.
\<close>

theorem Unpack_decrypt_failure_is_fatal_witness:
  "jose_Decrypt test_collaborators ''privB'' (test_jwe [''A'', ''B'']) = Inr ''secret message'' \<and>
   Unpack test_collaborators
     (test_packer [(''A'', KeysetHandle ''privA''), (''B'', KeysetHandle ''privB'')])
     ''envelope-AB'' =
     ([KMS_Get ''A'', Decrypt 0],
      Inl (Error (''anoncrypt Unpack: failed to decrypt JWE envelope: '' @
                  ''ecdhes_factory: decryption failed'')))"
  using Unpack_decrypt_failure_is_fatal [of test_collaborators "''envelope-AB''"
      "test_jwe [''A'', ''B'']" 0
      "test_packer [(''A'', KeysetHandle ''privA''), (''B'', KeysetHandle ''privB'')]"
      "''A''" "''privA''" "''ecdhes_factory: decryption failed''"]
  by (simp add: test_defs)

text \<open>
  Claim C5. When every recipient of the envelope has been visited and the key manager
  reported each key not found, \<^verbatim>\<open>Unpack\<close> fails with "no matching recipient in
  envelope" (the spec's NoMatchingRecipient); the result is an error, so no plaintext
  is returned.
\<close>

theorem Unpack_no_matching_recipient:
  assumes des: "jose_Deserialize c envelope = Inr jwe"
    and none: "\<forall>j < length (Recipients jwe). keyNotFound c p jwe j"
  shows "Unpack c p envelope =
         (lookups jwe [0 ..< length (Recipients jwe)],
          Inl (Error ''anoncrypt Unpack: no matching recipient in envelope''))"
proof -
  have "\<forall>j \<in> set [0 ..< length (Recipients jwe)]. keyNotFound c p jwe j"
    using none by simp
  from Unpack_loop_skip [OF this, of "[]" "[]"] show ?thesis
    using des by (simp add: Unpack_def)
qed

theorem Unpack_no_matching_recipient_witness:
  "Unpack test_collaborators (test_packer [(''D'', KeysetHandle ''privD'')]) ''envelope-ABC'' =
     ([KMS_Get ''A'', KMS_Get ''B'', KMS_Get ''C''],
      Inl (Error ''anoncrypt Unpack: no matching recipient in envelope''))"
  using Unpack_no_matching_recipient [of test_collaborators "''envelope-ABC''"
      "test_jwe [''A'', ''B'', ''C'']" "test_packer [(''D'', KeysetHandle ''privD'')]"]
  by (simp add: test_defs less_Suc_eq upt_rec)

text \<open>
  Claim C6. When the lookup of recipient \<open>i\<close> succeeds and what it returns is not a
  keyset handle, \<^verbatim>\<open>Unpack\<close> fails at once with "invalid keyset handle" (the spec's
  ConfigError): it does not go on to the next recipient, and neither decrypts nor
  looks up anything more.
\<close>

theorem Unpack_wrong_handle_type_is_fatal:
  assumes des: "jose_Deserialize c envelope = Inr jwe"
    and i: "i < length (Recipients jwe)"
    and skip: "\<forall>j < i. keyNotFound c p jwe j"
    and kid: "getKID i jwe = Inr kid"
    and found: "kms p kid = Inr OtherType"
  shows "Unpack c p envelope =
         (lookups jwe [0 ..< i] @ [KMS_Get kid],
          Inl (Error ''anoncrypt Unpack: invalid keyset handle''))"
  using Unpack_reaches [OF des i skip] kid found by simp

theorem Unpack_wrong_handle_type_is_fatal_witness:
  "Unpack test_collaborators
     (test_packer [(''B'', OtherType), (''C'', KeysetHandle ''privC'')]) ''envelope-ABC'' =
     ([KMS_Get ''A'', KMS_Get ''B''], Inl (Error ''anoncrypt Unpack: invalid keyset handle''))"
  using Unpack_wrong_handle_type_is_fatal [of test_collaborators "''envelope-ABC''"
      "test_jwe [''A'', ''B'', ''C'']" 1
      "test_packer [(''B'', OtherType), (''C'', KeysetHandle ''privC'')]" "''B''"]
  by (simp add: test_defs)

text \<open>
  Claim C10. A failed lookup at recipient \<open>i\<close> is read as "key not found, try the next
  recipient" exactly when \<^verbatim>\<open>strings.EqualFold\<close>, the library's equality up to case,
  equates its message with the text
  \<^verbatim>\<open>cannot read data for keysetID <kid>: <message of storage.ErrDataNotFound>\<close>; the
  loop then goes on with recipient \<open>i + 1\<close>, and what it returns no longer depends on
  that message. A lookup error with any other message ends \<^verbatim>\<open>Unpack\<close> at once with
  "failed to get key from kms" and the message, and no later recipient is visited. This
  holds whatever the key manager, the other collaborators and \<^verbatim>\<open>strings.EqualFold\<close>
  itself are.
\<close>

theorem Unpack_kms_error_classification:
  assumes des: "jose_Deserialize c envelope = Inr jwe"
    and i: "i < length (Recipients jwe)"
    and skip: "\<forall>j < i. keyNotFound c p jwe j"
    and kid: "getKID i jwe = Inr kid"
    and failed: "kms p kid = Inl err"
  shows "Unpack c p envelope =
         (if strings_EqualFold c err
               (''cannot read data for keysetID '' @ kid @ '': '' @ storage_ErrDataNotFound c)
          then Unpack_loop c p jwe [Suc i ..< length (Recipients jwe)]
                 (lookups jwe [0 ..< i] @ [KMS_Get kid])
          else (lookups jwe [0 ..< i] @ [KMS_Get kid],
                Inl (Error (''anoncrypt Unpack: failed to get key from kms: '' @ err))))"
  using Unpack_reaches [OF des i skip] kid failed
  by (simp add: notFoundMessage_def)

text \<open>
  Recipients \<^verbatim>\<open>[A, B]\<close>, the key of \<^verbatim>\<open>B\<close> present, the stand-in comparison of the
  examples. A key manager that answers the missing \<^verbatim>\<open>A\<close> with the expected text in
  another case lets \<^verbatim>\<open>Unpack\<close> go on to \<^verbatim>\<open>B\<close>; one that answers "key A does not
  exist" ends it.
\<close>

theorem Unpack_kms_error_classification_witness:
  "Unpack test_collaborators
     \<lparr>kms = test_kms_err ''CANNOT READ DATA FOR KEYSETID a: Data Not Found''
              [(''B'', KeysetHandle ''privB'')], encAlg = ''A256GCM''\<rparr> ''envelope-AB'' =
     ([KMS_Get ''A'', KMS_Get ''B'', Decrypt 1, Export 1],
      Inr \<lparr>Message = ''secret message'', ToVerKey = ''pub-of-privB''\<rparr>) \<and>
   Unpack test_collaborators
     \<lparr>kms = test_kms_err ''key A does not exist''
              [(''B'', KeysetHandle ''privB'')], encAlg = ''A256GCM''\<rparr> ''envelope-AB'' =
     ([KMS_Get ''A''],
      Inl (Error ''anoncrypt Unpack: failed to get key from kms: key A does not exist''))"
  using
    Unpack_kms_error_classification [of test_collaborators "''envelope-AB''"
      "test_jwe [''A'', ''B'']" 0
      "\<lparr>kms = test_kms_err ''CANNOT READ DATA FOR KEYSETID a: Data Not Found''
              [(''B'', KeysetHandle ''privB'')], encAlg = ''A256GCM''\<rparr>"
      "''A''" "''CANNOT READ DATA FOR KEYSETID a: Data Not Found''"]
    Unpack_kms_error_classification [of test_collaborators "''envelope-AB''"
      "test_jwe [''A'', ''B'']" 0
      "\<lparr>kms = test_kms_err ''key A does not exist''
              [(''B'', KeysetHandle ''privB'')], encAlg = ''A256GCM''\<rparr>"
      "''A''" "''key A does not exist''"]
  by (simp add: test_defs test_kms_err_def)

section \<open>Properties of Pack\<close>

lemma unmarshalRecipientKeys_first_error:
  assumes "\<forall>k \<in> set good. \<exists>pk. json_Unmarshal c k = Inr pk"
    and "json_Unmarshal c bad = Inl err"
  shows "unmarshalRecipientKeys c (good @ bad # rest) pubKeys = Inl err"
  using assms by (induction good arbitrary: pubKeys) auto

lemma unmarshalRecipientKeys_all:
  assumes "map (json_Unmarshal c) keys = map Inr pks"
  shows "unmarshalRecipientKeys c keys pubKeys = Inr (pubKeys @ pks)"
  using assms by (induction keys arbitrary: pubKeys pks) auto

text \<open>
  Claim C8. The recipient keys are decoded, in order, before anything else is done with
  them. Whenever some key of the list does not decode, \<^verbatim>\<open>Pack\<close> fails with "failed to
  convert recipient keys" and the decoder's error for the first such key: an error and
  no envelope bytes. The keys after that one, the encrypter and the serializers play no
  part: the result is the same whatever they are.
\<close>

theorem Pack_malformed_key_fails_fast:
  assumes member: "k \<in> set recipientsPubKeys"
    and malformed: "json_Unmarshal c k = Inl e"
  shows "\<exists>good bad rest err.
           recipientsPubKeys = good @ bad # rest \<and>
           (\<forall>g \<in> set good. \<exists>pk. json_Unmarshal c g = Inr pk) \<and>
           json_Unmarshal c bad = Inl err \<and>
           Pack (c\<lparr>jose_NewJWEEncrypt := newEncrypt, jose_Encrypt := encrypt,
                    jose_CompactSerialize := compact, jose_FullSerialize := full\<rparr>)
                p payload recipientsPubKeys =
             Inl (Error (''anoncrypt Pack: failed to convert recipient keys: '' @ err))"
proof -
  let ?c = "c\<lparr>jose_NewJWEEncrypt := newEncrypt, jose_Encrypt := encrypt,
               jose_CompactSerialize := compact, jose_FullSerialize := full\<rparr>"
  have "\<exists>x \<in> set recipientsPubKeys. \<exists>err. json_Unmarshal c x = Inl err"
    using member malformed by blast
  from split_list_first_prop [where P = "\<lambda>x. \<exists>err. json_Unmarshal c x = Inl err", OF this]
  obtain good bad rest where split: "recipientsPubKeys = good @ bad # rest"
    and bad: "\<exists>err. json_Unmarshal c bad = Inl err"
    and good: "\<forall>g \<in> set good. \<not> (\<exists>err. json_Unmarshal c g = Inl err)"
    by blast
  from bad obtain err where err: "json_Unmarshal c bad = Inl err" ..
  have good': "\<forall>g \<in> set good. \<exists>pk. json_Unmarshal c g = Inr pk"
  proof
    fix g assume "g \<in> set good"
    with good have "\<not> (\<exists>err. json_Unmarshal c g = Inl err)" by blast
    then show "\<exists>pk. json_Unmarshal c g = Inr pk"
      by (cases "json_Unmarshal c g") auto
  qed
  have "\<forall>g \<in> set good. \<exists>pk. json_Unmarshal ?c g = Inr pk"
    using good' by simp
  moreover have "json_Unmarshal ?c bad = Inl err"
    using err by simp
  ultimately have "unmarshalRecipientKeys ?c (good @ bad # rest) [] = Inl err"
    by (rule unmarshalRecipientKeys_first_error)
  then have "Pack ?c p payload recipientsPubKeys =
      Inl (Error (''anoncrypt Pack: failed to convert recipient keys: '' @ err))"
    by (simp add: Pack_def split)
  with split good' err show ?thesis by blast
qed

text \<open>Three keys, the second empty: the error is the decoder's, for any encrypter.\<close>

theorem Pack_malformed_key_fails_fast_witness:
  "json_Unmarshal test_collaborators [] = Inl ''unexpected end of JSON input'' \<and>
   Pack (test_collaborators\<lparr>jose_NewJWEEncrypt := (\<lambda>alg keys. Inr keys),
            jose_Encrypt := (\<lambda>keys payload. Inr (test_jwe keys)),
            jose_CompactSerialize := (\<lambda>jwe. Inr ''compact''),
            jose_FullSerialize := (\<lambda>jwe. Inr ''full'')\<rparr>)
        (test_packer []) ''payload'' [''keyA'', [], ''keyC''] =
     Inl (Error (''anoncrypt Pack: failed to convert recipient keys: '' @
                 ''unexpected end of JSON input''))"
  using Pack_malformed_key_fails_fast [where k = "[]"
      and recipientsPubKeys = "[''keyA'', [], ''keyC'']" and c = test_collaborators
      and e = "''unexpected end of JSON input''"
      and newEncrypt = "\<lambda>alg keys. Inr keys"
      and encrypt = "\<lambda>keys payload. Inr (test_jwe keys)"
      and compact = "\<lambda>jwe. Inr ''compact''" and full = "\<lambda>jwe. Inr ''full''"
      and p = "test_packer []" and payload = "''payload''"]
  by (simp add: test_collaborators_def Pack_def)

lemma Pack_empty_recipients:
  "Pack c p payload [] = Inl (Error ''anoncrypt Pack: empty recipientsPubKeys'')"
  by (simp add: Pack_def)

section \<open>Caller misuse\<close>

text \<open>
  Claim C7. Caller misuse is answered with an error before anything else is done.
  \<^verbatim>\<open>Pack\<close> with no recipient key fails with "empty recipientsPubKeys", whatever its
  collaborators are. \<^verbatim>\<open>AcceptInvitation\<close>, \<^verbatim>\<open>AcceptExchangeRequest\<close>,
  \<^verbatim>\<open>QueryConnectionByID\<close> and \<^verbatim>\<open>RemoveConnection\<close> on a request that decodes to an
  empty connection ID, and \<^verbatim>\<open>CreateImplicitInvitation\<close> on one that decodes to an empty
  inviter DID, return a validation error with the code \<open>InvalidRequestErrorCode\<close>,
  make no call on the client and write no response.
\<close>

theorem caller_misuse_is_rejected_first:
  "Pack pc p payload [] = Inl (Error ''anoncrypt Pack: empty recipientsPubKeys'') \<and>
   (Decode_AcceptInvitationArgs json req1 = Inr a1 \<and> ID a1 = [] \<longrightarrow>
      AcceptInvitation c json req1 =
        \<lparr>returned = Some (ValidationError InvalidRequestErrorCode ''empty connection ID''),
         client_calls = [], written = []\<rparr>) \<and>
   (Decode_AcceptExchangeRequestArgs json req2 = Inr a2 \<and>
      ID a2 = [] \<longrightarrow>
      AcceptExchangeRequest c json req2 =
        \<lparr>returned = Some (ValidationError InvalidRequestErrorCode ''empty connection ID''),
         client_calls = [], written = []\<rparr>) \<and>
   (Decode_ConnectionIDArg json req3 = Inr a3 \<and> ID a3 = [] \<longrightarrow>
      QueryConnectionByID c json req3 =
        \<lparr>returned = Some (ValidationError InvalidRequestErrorCode ''empty connection ID''),
         client_calls = [], written = []\<rparr> \<and>
      RemoveConnection c json req3 =
        \<lparr>returned = Some (ValidationError InvalidRequestErrorCode ''empty connection ID''),
         client_calls = [], written = []\<rparr>) \<and>
   (Decode_ImplicitInvitationArgs json req4 = Inr a4 \<and> InviterDID a4 = [] \<longrightarrow>
      CreateImplicitInvitation c json req4 =
        \<lparr>returned = Some (ValidationError InvalidRequestErrorCode ''empty inviter DID''),
         client_calls = [], written = []\<rparr>)"
  by (simp add: Pack_def AcceptInvitation_def AcceptExchangeRequest_def
      QueryConnectionByID_def RemoveConnection_def CreateImplicitInvitation_def
      errEmptyConnID_def errEmptyInviterDID_def)

theorem caller_misuse_is_rejected_first_witness:
  "Pack test_collaborators (test_packer []) ''payload'' [] =
     Inl (Error ''anoncrypt Pack: empty recipientsPubKeys'') \<and>
   AcceptInvitation test_command test_decoder ''{}'' =
     \<lparr>returned = Some (ValidationError InvalidRequestErrorCode ''empty connection ID''),
      client_calls = [], written = []\<rparr> \<and>
   AcceptExchangeRequest test_command test_decoder ''{}'' =
     \<lparr>returned = Some (ValidationError InvalidRequestErrorCode ''empty connection ID''),
      client_calls = [], written = []\<rparr> \<and>
   QueryConnectionByID test_command test_decoder ''{}'' =
     \<lparr>returned = Some (ValidationError InvalidRequestErrorCode ''empty connection ID''),
      client_calls = [], written = []\<rparr> \<and>
   RemoveConnection test_command test_decoder ''{}'' =
     \<lparr>returned = Some (ValidationError InvalidRequestErrorCode ''empty connection ID''),
      client_calls = [], written = []\<rparr> \<and>
   CreateImplicitInvitation test_command test_decoder ''{}'' =
     \<lparr>returned = Some (ValidationError InvalidRequestErrorCode ''empty inviter DID''),
      client_calls = [], written = []\<rparr>"
  using caller_misuse_is_rejected_first [where pc = test_collaborators
      and p = "test_packer []" and payload = "''payload''"
      and c = test_command and json = test_decoder
      and ?req1.0 = "''{}''" and ?a1.0 = "\<lparr>ID = [], Public = []\<rparr>"
      and ?req2.0 = "''{}''" and ?a2.0 = "\<lparr>ID = [], Public = []\<rparr>"
      and ?req3.0 = "''{}''" and ?a3.0 = "\<lparr>ID = []\<rparr>"
      and ?req4.0 = "''{}''"
      and ?a4.0 = "\<lparr>InviterDID = [], InviterLabel = [], InviteeDID = [], InviteeLabel = []\<rparr>"]
  by (simp add: test_decoder_def)

text \<open>With a connection ID the client is called, once, with the ID of the request.\<close>

lemma AcceptInvitation_calls_client:
  "AcceptInvitation test_command test_decoder ''conn-7'' =
     \<lparr>returned = None, client_calls = [Call_AcceptInvitation ''conn-7'' [] ''agent''],
      written = [AcceptInvitationResponse ''conn-7'']\<rparr>"
  by (simp add: AcceptInvitation_def test_decoder_def test_command_def)

section \<open>The action dispatcher\<close>

text \<open>
  One broadcast sends to the subscribers in list order, one clone and one send each, and
  the references sent are new and pairwise different.
\<close>

lemma broadcast_order:
  assumes "Message_ref action < length (payloads w)"
  shows "\<exists>w'. broadcast subs action w = Some w' \<and>
           length (payloads w') = length (payloads w) + length subs \<and>
           map fst (delivered w') = map fst (delivered w) @ subs \<and>
           map (Message_ref \<circ> snd) (delivered w') =
             map (Message_ref \<circ> snd) (delivered w) @
             [length (payloads w) ..< length (payloads w) + length subs]"
  using assms
proof (induction subs arbitrary: action w)
  case Nil
  then show ?case by simp
next
  case (Cons sub subs)
  let ?r = "length (payloads w)"
  let ?a = "action\<lparr>Message_ref := ?r\<rparr>"
  let ?w = "\<lparr>payloads = payloads w @ [payloads w ! Message_ref action],
             delivered = delivered w @ [(sub, ?a)]\<rparr>"
  have step: "broadcast (sub # subs) action w = broadcast subs ?a ?w"
    using Cons.prems by (simp add: loop_body_def Clone_def)
  have "Message_ref ?a < length (payloads ?w)"
    by simp
  from Cons.IH [OF this] obtain w' where w': "broadcast subs ?a ?w = Some w'"
    and len: "length (payloads w') = length (payloads ?w) + length subs"
    and order: "map fst (delivered w') = map fst (delivered ?w) @ subs"
    and refs: "map (Message_ref \<circ> snd) (delivered w') =
                 map (Message_ref \<circ> snd) (delivered ?w) @
                 [length (payloads ?w) ..< length (payloads ?w) + length subs]"
    by blast
  have "[?r ..< ?r + length (sub # subs)] = ?r # [Suc ?r ..< Suc ?r + length subs]"
    by (simp add: upt_conv_Cons del: upt_Suc)
  then show ?case
    using step w' len order refs by (simp add: comp_def del: upt_Suc)
qed

text \<open>When no subscriber touches its copy while the loop runs, the schedule is the loop.\<close>

lemma broadcast_beside_no_edit: "broadcast_beside (\<lambda>sub m. m) subs action w = broadcast subs action w"
proof (induction subs arbitrary: action w)
  case Nil
  then show ?case by simp
next
  case (Cons sub subs)
  have "\<And>r w'. mutate r (\<lambda>m. m) w' = w'"
    by (simp add: mutate_def)
  then show ?case
    using Cons.IH by (simp split: option.splits)
qed

lemma broadcast_without_edits:
  "broadcast (subscribers True) \<lparr>ProtocolName = ''didexchange'', Message_ref = 0\<rparr>
     \<lparr>payloads = [[(''@id'', ''1'')]], delivered = []\<rparr> =
   Some \<lparr>payloads = [[(''@id'', ''1'')], [(''@id'', ''1'')], [(''@id'', ''1'')]],
         delivered = [(Application, \<lparr>ProtocolName = ''didexchange'', Message_ref = 1\<rparr>),
                      (AutoAccept, \<lparr>ProtocolName = ''didexchange'', Message_ref = 2\<rparr>)]\<rparr>"
  by (simp add: subscribers_def loop_body_def Clone_def)

text \<open>Two actions, auto-accept on: both subscribers are sent the first, then the second.\<close>

lemma dispatch_two_actions:
  "dispatch (subscribers True)
     [\<lparr>ProtocolName = ''didexchange'', Message_ref = 0\<rparr>,
      \<lparr>ProtocolName = ''didexchange'', Message_ref = 1\<rparr>]
     \<lparr>payloads = [[(''@id'', ''1'')], [(''@id'', ''2'')]], delivered = []\<rparr> =
   Some \<lparr>payloads = [[(''@id'', ''1'')], [(''@id'', ''2'')], [(''@id'', ''1'')],
                     [(''@id'', ''1'')], [(''@id'', ''2'')], [(''@id'', ''2'')]],
         delivered = [(Application, \<lparr>ProtocolName = ''didexchange'', Message_ref = 2\<rparr>),
                      (AutoAccept, \<lparr>ProtocolName = ''didexchange'', Message_ref = 3\<rparr>),
                      (Application, \<lparr>ProtocolName = ''didexchange'', Message_ref = 4\<rparr>),
                      (AutoAccept, \<lparr>ProtocolName = ''didexchange'', Message_ref = 5\<rparr>)]\<rparr>"
  by (simp add: subscribers_def loop_body_def Clone_def)

text \<open>
  Claim C9, at the failing input. Auto-accept is on; the action carries the payload
  \<^verbatim>\<open>{"@id": "1"}\<close>; the application's subscriber, as soon as it has received its copy,
  sets \<^verbatim>\<open>@id\<close> to \<^verbatim>\<open>tampered\<close> in it. The order of delivery and the one clone per
  subscriber are as claimed, and the two references sent differ. But the second clone
  is taken from the loop variable, which by then refers to the copy the first subscriber
  holds: the payload the Auto-Accept subscriber receives has the other subscriber's edit
  in it.
\<close>

theorem broadcast_leaks_earlier_subscribers_edit:
  "broadcast_beside (\<lambda>sub m. if sub = Application then [(''@id'', ''tampered'')] else m)
     (subscribers True) \<lparr>ProtocolName = ''didexchange'', Message_ref = 0\<rparr>
     \<lparr>payloads = [[(''@id'', ''1'')]], delivered = []\<rparr> =
   Some \<lparr>payloads = [[(''@id'', ''1'')], [(''@id'', ''tampered'')], [(''@id'', ''tampered'')]],
         delivered = [(Application, \<lparr>ProtocolName = ''didexchange'', Message_ref = 1\<rparr>),
                      (AutoAccept, \<lparr>ProtocolName = ''didexchange'', Message_ref = 2\<rparr>)]\<rparr> \<and>
   received
     \<lparr>payloads = [[(''@id'', ''1'')], [(''@id'', ''tampered'')], [(''@id'', ''tampered'')]],
      delivered = [(Application, \<lparr>ProtocolName = ''didexchange'', Message_ref = 1\<rparr>),
                   (AutoAccept, \<lparr>ProtocolName = ''didexchange'', Message_ref = 2\<rparr>)]\<rparr>
     AutoAccept = [[(''@id'', ''tampered'')]]"
  by (simp add: subscribers_def loop_body_def Clone_def mutate_def received_def)

section \<open>Pack and Unpack over the specified JOSE layer\<close>

subsection \<open>Dots, wrapped keys, and the two serializations\<close>

lemma splitDot_no_dot: "CHR ''.'' \<notin> set s \<Longrightarrow> splitDot s = [s]"
  by (induction s) auto

lemma splitDot_segment:
  "CHR ''.'' \<notin> set s \<Longrightarrow> splitDot (s @ CHR ''.'' # rest) = s # splitDot rest"
  by (induction s) auto

lemma splitDot_joinDot:
  "ss \<noteq> [] \<Longrightarrow> \<forall>s \<in> set ss. CHR ''.'' \<notin> set s \<Longrightarrow> splitDot (joinDot ss) = ss"
  by (induction ss rule: joinDot.induct) (auto simp: splitDot_no_dot splitDot_segment)

lemma joinDot_no_brace:
  assumes "\<forall>s \<in> set (a # b # ss). CHR ''{'' \<notin> set s"
  shows "\<not> (joinDot (a # b # ss) \<noteq> [] \<and> hd (joinDot (a # b # ss)) = CHR ''{'')"
  using assms by (cases a) auto

lemma unwrapFirst_finds:
  assumes "crypto_correct P" and "publicKey P sk \<in> set pks"
  shows "unwrapFirst P sk
           (map (\<lambda>pk. Some \<lparr>Header = Some \<lparr>KID = keyID P pk\<rparr>,
                            EncryptedKey = wrapKey P pk cek\<rparr>) pks) = Some cek"
  using assms(2)
proof (induction pks)
  case Nil
  then show ?case by simp
next
  case (Cons pk pks)
  show ?case
  proof (cases "publicKey P sk = pk")
    case True
    then show ?thesis using assms(1) by (auto simp: crypto_correct_def)
  next
    case False
    then have "unwrapKey P sk (wrapKey P pk cek) = None"
      using assms(1) by (simp add: crypto_correct_def)
    then show ?thesis using Cons False by auto
  qed
qed

lemma spec_Encrypt_addressed:
  "spec_Encrypt P (alg, pks) payload = Inr jwe \<Longrightarrow> addressed_to P pks payload jwe"
  by (auto simp: spec_Encrypt_def addressed_to_def)

lemma spec_Decrypt_addressed:
  assumes "crypto_correct P" and "addressed_to P pks payload jwe"
    and "publicKey P sk \<in> set pks"
  shows "spec_Decrypt P (PrivateKeys sk) jwe = Inr payload"
proof -
  have "unwrapFirst P sk (Recipients jwe) = Some (random_cek P)"
    using assms(2) unwrapFirst_finds [OF assms(1) assms(3)] by (simp add: addressed_to_def)
  moreover have "aead_open P (random_cek P) (IV jwe) (Ciphertext jwe) (Tag jwe) = Some payload"
    using assms(1,2) by (simp add: addressed_to_def crypto_correct_def)
  ultimately show ?thesis by (simp add: spec_Decrypt_def)
qed

lemma those_map_Some: "those (map (\<lambda>x. Some (f x)) xs) = Some (map f xs)"
  by (induction xs) auto

lemma compact_roundtrip:
  assumes codec: "codec_correct P" and addr: "addressed_to P [pk] payload jwe"
  shows "\<exists>jwe'. spec_CompactSerialize P jwe =
           Inr (joinDot
                 [base64url P (marshalHeaders P ((''kid'', keyID P pk) # ProtectedHeaders jwe)),
                  base64url P (EncryptedKey (the (hd (Recipients jwe)))),
                  base64url P (IV jwe), base64url P (Ciphertext jwe), base64url P (Tag jwe)]) \<and>
         spec_Deserialize P (joinDot
                 [base64url P (marshalHeaders P ((''kid'', keyID P pk) # ProtectedHeaders jwe)),
                  base64url P (EncryptedKey (the (hd (Recipients jwe)))),
                  base64url P (IV jwe), base64url P (Ciphertext jwe), base64url P (Tag jwe)])
           = Inr jwe' \<and>
         addressed_to P [pk] payload jwe' \<and>
         KeyID (ProtectedHeaders jwe') = Some (keyID P pk)"
proof -
  let ?segs = "[base64url P (marshalHeaders P ((''kid'', keyID P pk) # ProtectedHeaders jwe)),
                base64url P (EncryptedKey (the (hd (Recipients jwe)))),
                base64url P (IV jwe), base64url P (Ciphertext jwe), base64url P (Tag jwe)]"
  have rec: "Recipients jwe = [Some \<lparr>Header = Some \<lparr>KID = keyID P pk\<rparr>,
                                     EncryptedKey = wrapKey P pk (random_cek P)\<rparr>]"
    using addr by (simp add: addressed_to_def)
  have ser: "spec_CompactSerialize P jwe = Inr (joinDot ?segs)"
    using rec by (simp add: spec_CompactSerialize_def)
  have b64: "\<And>x. base64url_decode P (base64url P x) = Some x"
    and nodot: "\<And>x. CHR ''.'' \<notin> set (base64url P x)"
    and nobrace: "\<And>x. CHR ''{'' \<notin> set (base64url P x)"
    using codec by (simp_all add: codec_correct_def)
  obtain hs where hs: "unmarshalHeaders P (marshalHeaders P ((''kid'', keyID P pk) # ProtectedHeaders jwe)) = Some hs"
    and hs_map: "map_of hs = map_of ((''kid'', keyID P pk) # ProtectedHeaders jwe)"
    using codec unfolding codec_correct_def by blast
  have split: "splitDot (joinDot ?segs) = ?segs"
    by (rule splitDot_joinDot) (simp_all add: nodot)
  have nb: "\<not> (joinDot ?segs \<noteq> [] \<and> hd (joinDot ?segs) = CHR ''{'')"
    by (rule joinDot_no_brace) (simp add: nobrace)
  have kid: "KeyID hs = Some (keyID P pk)"
    by (simp add: KeyID_def hs_map)
  let ?jwe' = "\<lparr>ProtectedHeaders = hs,
                Recipients = [Some \<lparr>Header = map_option (\<lambda>k. \<lparr>KID = k\<rparr>) (KeyID hs),
                                    EncryptedKey = EncryptedKey (the (hd (Recipients jwe)))\<rparr>],
                IV = IV jwe, Ciphertext = Ciphertext jwe, Tag = Tag jwe\<rparr>"
  have des: "spec_Deserialize P (joinDot ?segs) = Inr ?jwe'"
    using nb split by (simp add: spec_Deserialize_def decodeHeaders_def b64 hs)
  have "addressed_to P [pk] payload ?jwe'"
    using addr rec kid by (simp add: addressed_to_def)
  with ser des kid show ?thesis by auto
qed

lemma full_roundtrip:
  assumes codec: "codec_correct P" and addr: "addressed_to P pks payload jwe"
  shows "\<exists>jwe'. spec_FullSerialize P jwe =
           Inr (marshalJWE P
             \<lparr>raw_protected = base64url P (marshalHeaders P (ProtectedHeaders jwe)),
              raw_recipients =
                map (\<lambda>pk. (keyID P pk, base64url P (wrapKey P pk (random_cek P)))) pks,
              raw_iv = base64url P (IV jwe),
              raw_ciphertext = base64url P (Ciphertext jwe),
              raw_tag = base64url P (Tag jwe)\<rparr>) \<and>
         spec_Deserialize P (marshalJWE P
             \<lparr>raw_protected = base64url P (marshalHeaders P (ProtectedHeaders jwe)),
              raw_recipients =
                map (\<lambda>pk. (keyID P pk, base64url P (wrapKey P pk (random_cek P)))) pks,
              raw_iv = base64url P (IV jwe),
              raw_ciphertext = base64url P (Ciphertext jwe),
              raw_tag = base64url P (Tag jwe)\<rparr>) = Inr jwe' \<and>
         addressed_to P pks payload jwe'"
proof -
  let ?raw = "\<lparr>raw_protected = base64url P (marshalHeaders P (ProtectedHeaders jwe)),
              raw_recipients =
                map (\<lambda>pk. (keyID P pk, base64url P (wrapKey P pk (random_cek P)))) pks,
              raw_iv = base64url P (IV jwe),
              raw_ciphertext = base64url P (Ciphertext jwe),
              raw_tag = base64url P (Tag jwe)\<rparr>"
  have rec: "Recipients jwe = map (\<lambda>pk. Some \<lparr>Header = Some \<lparr>KID = keyID P pk\<rparr>,
                                     EncryptedKey = wrapKey P pk (random_cek P)\<rparr>) pks"
    using addr by (simp add: addressed_to_def)
  have "map (raw_recipient P) (Recipients jwe) =
        map (\<lambda>pk. Some (keyID P pk, base64url P (wrapKey P pk (random_cek P)))) pks"
    by (simp add: rec raw_recipient_def)
  then have ser: "spec_FullSerialize P jwe = Inr (marshalJWE P ?raw)"
    by (simp add: spec_FullSerialize_def those_map_Some)
  have b64: "\<And>x. base64url_decode P (base64url P x) = Some x"
    and un: "unmarshalJWE P (marshalJWE P ?raw) = Some ?raw"
    using codec by (simp_all add: codec_correct_def)
  obtain t where brace: "marshalJWE P ?raw = CHR ''{'' # t"
    using codec unfolding codec_correct_def by blast
  obtain hs where hs: "unmarshalHeaders P (marshalHeaders P (ProtectedHeaders jwe)) = Some hs"
    using codec unfolding codec_correct_def by blast
  have "map (decodeRecipient P) (raw_recipients ?raw) =
        map (\<lambda>pk. Some (Some \<lparr>Header = Some \<lparr>KID = keyID P pk\<rparr>,
                               EncryptedKey = wrapKey P pk (random_cek P)\<rparr>)) pks"
    by (simp add: decodeRecipient_def b64)
  then have recs: "those (map (decodeRecipient P) (raw_recipients ?raw)) = Some (Recipients jwe)"
    by (simp only: those_map_Some rec)
  let ?jwe' = "\<lparr>ProtectedHeaders = hs, Recipients = Recipients jwe, IV = IV jwe,
                Ciphertext = Ciphertext jwe, Tag = Tag jwe\<rparr>"
  have hd: "marshalJWE P ?raw \<noteq> [] \<and> hd (marshalJWE P ?raw) = CHR ''{''"
    by (simp add: brace)
  have des: "spec_Deserialize P (marshalJWE P ?raw) = Inr ?jwe'"
    unfolding spec_Deserialize_def using hd un recs
    by (simp add: decodeHeaders_def b64 hs)
  have "addressed_to P pks payload ?jwe'"
    using addr by (simp add: addressed_to_def)
  with ser des show ?thesis by blast
qed

lemma getKID_addressed:
  assumes "addressed_to P pks payload jwe"
    and "length pks = 1 \<longrightarrow> KeyID (ProtectedHeaders jwe) = Some (keyID P (pks ! 0))"
    and "i < length pks"
  shows "getKID i jwe = Inr (keyID P (pks ! i))"
  using assms by (auto simp: getKID_def addressed_to_def)

lemma Unpack_addressed:
  assumes crypto: "crypto_correct P"
    and fold: "fold_reflexive P"
    and des: "spec_Deserialize P s = Inr jwe"
    and addr: "addressed_to P pks payload jwe"
    and single: "length pks = 1 \<longrightarrow> KeyID (ProtectedHeaders jwe) = Some (keyID P (pks ! 0))"
    and m: "m < length pks"
    and sk: "publicKey P sk = pks ! m"
    and kms: "kms p = spec_kms P [(keyID P (pks ! m), sk)]"
  shows "snd (Unpack (spec_collaborators P) p s) =
         Inr \<lparr>Message = payload, ToVerKey = encodeKey P (pks ! m)\<rparr>"
proof -
  let ?c = "spec_collaborators P"
  let ?kid = "keyID P (pks ! m)"
  define i where "i = (LEAST i. keyID P (pks ! i) = ?kid)"
  have i_kid: "keyID P (pks ! i) = ?kid"
    unfolding i_def by (rule LeastI [of _ m]) simp
  have i_le: "i \<le> m"
    unfolding i_def by (rule Least_le) simp
  have before: "\<And>j. j < i \<Longrightarrow> keyID P (pks ! j) \<noteq> ?kid"
    unfolding i_def by (rule not_less_Least)
  have len: "length (Recipients jwe) = length pks"
    using addr by (simp add: addressed_to_def)
  have i_lt: "i < length (Recipients jwe)"
    using i_le m len by simp
  have kid_at: "\<And>j. j < length pks \<Longrightarrow> getKID j jwe = Inr (keyID P (pks ! j))"
    by (rule getKID_addressed [OF addr single])
  have skip: "\<forall>j < i. keyNotFound ?c p jwe j"
  proof (intro allI impI)
    fix j assume "j < i"
    then have "j < length pks" and "keyID P (pks ! j) \<noteq> ?kid"
      using i_le m before by simp_all
    then show "keyNotFound ?c p jwe j"
      using kid_at [of j]
      using fold
      by (simp add: keyNotFound_def kms spec_kms_def notFoundMessage_def
          spec_collaborators_def fold_reflexive_def)
  qed
  have des': "jose_Deserialize ?c s = Inr jwe"
    using des by (simp add: spec_collaborators_def)
  have kid_i: "getKID i jwe = Inr ?kid"
    using kid_at [of i] i_le m i_kid by simp
  have found: "kms p ?kid = Inr (KeysetHandle (PrivateKeys sk))"
    by (simp add: kms spec_kms_def)
  have "publicKey P sk \<in> set pks"
    using sk m by simp
  then have dec: "jose_Decrypt ?c (PrivateKeys sk) jwe = Inr payload"
    using spec_Decrypt_addressed [OF crypto addr] by (simp add: spec_collaborators_def)
  have exp: "exportPubKeyBytes ?c (PrivateKeys sk) = Inr (encodeKey P (pks ! m))"
    by (simp add: exportPubKeyBytes_def spec_collaborators_def spec_Public_def
        spec_WriteWithNoSecrets_def sk)
  show ?thesis
    using Unpack_reaches [OF des' i_lt skip] kid_i found dec exp by simp
qed

subsection \<open>The primitives of the examples are correct\<close>

lemma test_unescape_Cons:
  "c \<noteq> CHR ''_'' \<Longrightarrow> test_unescape (c # s) = map_option ((#) c) (test_unescape s)"
  by (cases s) auto

lemma test_unescape_escape: "test_unescape (test_escape x) = Some x"
  by (induction x) (auto simp: test_unescape_Cons)

lemma test_escape_chars:
  "CHR ''.'' \<notin> set (test_escape x)" "CHR ''{'' \<notin> set (test_escape x)"
  by (induction x) auto

lemma those_unescape: "those (map (test_unescape \<circ> test_escape) xs) = Some xs"
  by (induction xs) (auto simp: test_unescape_escape)

lemma pairs_flatten: "pairs (flatten kvs) = Some kvs"
  by (induction kvs) (auto simp: flatten_def)

lemma takeWhile_wrapped:
  "takeWhile (\<lambda>c. c = CHR ''w'') (replicate n (CHR ''w'') @ CHR ''|'' # cek) =
   replicate n (CHR ''w'')"
  by (induction n) auto

lemma dropWhile_wrapped:
  "dropWhile (\<lambda>c. c = CHR ''w'') (replicate n (CHR ''w'') @ CHR ''|'' # cek) = CHR ''|'' # cek"
  by (induction n) auto

lemma test_crypto_correct: "crypto_correct test_primitives"
  by (auto simp: crypto_correct_def test_primitives_def test_unwrapKey_def
      takeWhile_wrapped dropWhile_wrapped)

lemma test_unmarshalHeaders_marshal: "test_unmarshalHeaders (test_marshalHeaders h) = Some h"
proof -
  have "splitDot (joinDot (''h'' # map test_escape (flatten h))) =
        ''h'' # map test_escape (flatten h)"
    by (rule splitDot_joinDot) (auto simp: test_escape_chars)
  then show ?thesis
    by (simp add: test_unmarshalHeaders_def test_marshalHeaders_def those_unescape
        pairs_flatten)
qed

lemma test_unmarshalJWE_marshal: "test_unmarshalJWE (test_marshalJWE r) = Some r"
proof -
  let ?segs = "test_escape (raw_protected r) # test_escape (raw_iv r) #
               test_escape (raw_ciphertext r) # test_escape (raw_tag r) #
               map test_escape (flatten (raw_recipients r))"
  have "splitDot (joinDot ?segs) = ?segs"
    by (rule splitDot_joinDot) (auto simp: test_escape_chars)
  then show ?thesis
    by (simp add: test_unmarshalJWE_def test_marshalJWE_def test_unescape_escape
        those_unescape pairs_flatten del: joinDot.simps splitDot.simps)
qed

lemma test_fold_reflexive: "fold_reflexive test_primitives"
  by (simp add: fold_reflexive_def test_primitives_def test_EqualFold_refl)

lemma test_codec_correct: "codec_correct test_primitives"
  by (simp add: codec_correct_def test_primitives_def test_unescape_escape
      test_escape_chars test_unmarshalHeaders_marshal test_unmarshalJWE_marshal)
    (simp add: test_marshalJWE_def)

subsection \<open>Format selection\<close>

lemma Pack_spec:
  assumes keys: "map (decodeKey P) keys = map Inr pks" and ne: "keys \<noteq> []"
  shows "Pack (spec_collaborators P) p payload keys =
         (case (if length keys = 1
                then spec_CompactSerialize P (projr (spec_Encrypt P (encAlg p, pks) payload))
                else spec_FullSerialize P (projr (spec_Encrypt P (encAlg p, pks) payload))) of
            Inl err \<Rightarrow> Inl (Error (''anoncrypt Pack: failed to serialize JWE message: '' @ err))
          | Inr s \<Rightarrow> Inr s)"
proof -
  have "map (json_Unmarshal (spec_collaborators P)) keys = map Inr pks"
    using keys by (simp add: spec_collaborators_def)
  then have "unmarshalRecipientKeys (spec_collaborators P) keys [] = Inr ([] @ pks)"
    by (rule unmarshalRecipientKeys_all)
  then show ?thesis
    using ne by (simp add: Pack_def spec_collaborators_def spec_NewJWEEncrypt_def
        spec_Encrypt_def)
qed

text \<open>
  Claim C2. With well-formed recipient keys \<^verbatim>\<open>Pack\<close> succeeds, and its envelope is, for
  exactly one recipient, the compact form: five segments without a dot, joined by dots;
  for two or more recipients the full form: the JSON object with one \<^verbatim>\<open>recipients\<close>
  entry per recipient key, in order. \<^verbatim>\<open>Unpack\<close> is given nothing but the envelope, and
  accepts it in either form: the envelope read back has one recipient per key,
  \<^verbatim>\<open>getKID\<close> finds the key id of each, and with a key manager that holds the private key
  of one of the recipients \<^verbatim>\<open>Unpack\<close> returns the payload.
\<close>

theorem Pack_format_selection:
  assumes crypto: "crypto_correct P" and codec: "codec_correct P"
    and fold: "fold_reflexive P"
    and keys: "map (decodeKey P) keys = map Inr pks" and ne: "keys \<noteq> []"
    and m: "m < length pks" and sk: "publicKey P sk = pks ! m"
    and kms: "kms p = spec_kms P [(keyID P (pks ! m), sk)]"
  shows "\<exists>envelope jwe.
           Pack (spec_collaborators P) p payload keys = Inr envelope \<and>
           (length keys = 1 \<longrightarrow>
              (\<exists>segs. envelope = joinDot segs \<and> length segs = 5 \<and>
                      (\<forall>s \<in> set segs. CHR ''.'' \<notin> set s))) \<and>
           (2 \<le> length keys \<longrightarrow>
              (\<exists>raw. envelope = marshalJWE P raw \<and>
                     map fst (raw_recipients raw) = map (keyID P) pks)) \<and>
           jose_Deserialize (spec_collaborators P) envelope = Inr jwe \<and>
           length (Recipients jwe) = length keys \<and>
           (\<forall>i < length keys. getKID i jwe = Inr (keyID P (pks ! i))) \<and>
           snd (Unpack (spec_collaborators P) p envelope) =
             Inr \<lparr>Message = payload, ToVerKey = encodeKey P (pks ! m)\<rparr>"
proof -
  let ?jwe = "projr (spec_Encrypt P (encAlg p, pks) payload)"
  have addr: "addressed_to P pks payload ?jwe"
    by (rule spec_Encrypt_addressed [where alg = "encAlg p"]) (simp add: spec_Encrypt_def)
  have len: "length pks = length keys"
    using keys by (metis length_map)
  have nodot: "\<And>x. CHR ''.'' \<notin> set (base64url P x)"
    using codec by (simp add: codec_correct_def)
  show ?thesis
  proof (cases "length keys = 1")
    case True
    then obtain pk where pks: "pks = [pk]"
      using len by (cases pks) auto
    let ?segs = "[base64url P (marshalHeaders P ((''kid'', keyID P pk) # ProtectedHeaders ?jwe)),
                  base64url P (EncryptedKey (the (hd (Recipients ?jwe)))),
                  base64url P (IV ?jwe), base64url P (Ciphertext ?jwe), base64url P (Tag ?jwe)]"
    from compact_roundtrip [OF codec addr [unfolded pks]] obtain jwe'
      where ser: "spec_CompactSerialize P ?jwe = Inr (joinDot ?segs)"
        and des: "spec_Deserialize P (joinDot ?segs) = Inr jwe'"
        and addr': "addressed_to P [pk] payload jwe'"
        and kid: "KeyID (ProtectedHeaders jwe') = Some (keyID P pk)"
      unfolding pks by blast
    have pack: "Pack (spec_collaborators P) p payload keys = Inr (joinDot ?segs)"
      using Pack_spec [OF keys ne] True ser by simp
    have segs: "\<exists>segs. joinDot ?segs = joinDot segs \<and> length segs = 5 \<and>
                  (\<forall>s \<in> set segs. CHR ''.'' \<notin> set s)"
      by (rule exI [of _ ?segs]) (simp add: nodot)
    have des': "jose_Deserialize (spec_collaborators P) (joinDot ?segs) = Inr jwe'"
      using des by (simp add: spec_collaborators_def)
    have n: "length (Recipients jwe') = length keys"
      using addr' True by (simp add: addressed_to_def)
    have kids: "\<forall>i < length keys. getKID i jwe' = Inr (keyID P (pks ! i))"
      using getKID_addressed [OF addr' [folded pks]] kid True pks by simp
    have "snd (Unpack (spec_collaborators P) p (joinDot ?segs)) =
          Inr \<lparr>Message = payload, ToVerKey = encodeKey P (pks ! m)\<rparr>"
      by (rule Unpack_addressed [OF crypto fold des addr' [folded pks] _ m sk kms])
        (simp add: pks kid)
    with pack segs des' n kids True show ?thesis by auto
  next
    case False
    let ?raw = "\<lparr>raw_protected = base64url P (marshalHeaders P (ProtectedHeaders ?jwe)),
                raw_recipients =
                  map (\<lambda>pk. (keyID P pk, base64url P (wrapKey P pk (random_cek P)))) pks,
                raw_iv = base64url P (IV ?jwe),
                raw_ciphertext = base64url P (Ciphertext ?jwe),
                raw_tag = base64url P (Tag ?jwe)\<rparr>"
    from full_roundtrip [OF codec addr] obtain jwe'
      where ser: "spec_FullSerialize P ?jwe = Inr (marshalJWE P ?raw)"
        and des: "spec_Deserialize P (marshalJWE P ?raw) = Inr jwe'"
        and addr': "addressed_to P pks payload jwe'"
      by blast
    have pack: "Pack (spec_collaborators P) p payload keys = Inr (marshalJWE P ?raw)"
      using Pack_spec [OF keys ne] False ser by simp
    have raw: "\<exists>raw. marshalJWE P ?raw = marshalJWE P raw \<and>
                 map fst (raw_recipients raw) = map (keyID P) pks"
      by (rule exI [of _ ?raw]) (simp add: comp_def)
    have des': "jose_Deserialize (spec_collaborators P) (marshalJWE P ?raw) = Inr jwe'"
      using des by (simp add: spec_collaborators_def)
    have n: "length (Recipients jwe') = length keys"
      using addr' len by (simp add: addressed_to_def)
    have kids: "\<forall>i < length keys. getKID i jwe' = Inr (keyID P (pks ! i))"
      using getKID_addressed [OF addr'] False len by simp
    have "snd (Unpack (spec_collaborators P) p (marshalJWE P ?raw)) =
          Inr \<lparr>Message = payload, ToVerKey = encodeKey P (pks ! m)\<rparr>"
      by (rule Unpack_addressed [OF crypto fold des addr' _ m sk kms])
        (use False len in simp)
    with pack raw des' n kids False show ?thesis by auto
  qed
qed

lemma test_decode_one: "map (decodeKey test_primitives) [''pp''] = map Inr [2]"
  by (simp add: test_primitives_def)

lemma test_decode_two: "map (decodeKey test_primitives) [''p'', ''pp''] = map Inr [1, 2]"
  by (simp add: test_primitives_def)

lemma test_keyID: "keyID test_primitives 2 = ''key-ii''"
  by (simp add: test_primitives_def numeral_2_eq_2)

lemma test_publicKey: "publicKey test_primitives 2 = 2"
  by (simp add: test_primitives_def)

text \<open>
  One recipient and two recipients, with the envelopes written out; the key manager holds
  the private key of the recipient \<^verbatim>\<open>key-ii\<close>, and \<^verbatim>\<open>Unpack\<close> is run on both envelopes.
\<close>

theorem Pack_format_selection_witness:
  "Pack (spec_collaborators test_primitives)
     \<lparr>kms = spec_kms test_primitives [(''key-ii'', 2)], encAlg = ''A256GCM''\<rparr>
     ''hi'' [''pp''] =
     Inr ''h_dkid_dkey-ii_denc_dA256GCM_dalg_dECDH-ES+A256KW_depk_depk.ww|cek.iv.ih.cekivhi'' \<and>
   Unpack (spec_collaborators test_primitives)
     \<lparr>kms = spec_kms test_primitives [(''key-ii'', 2)], encAlg = ''A256GCM''\<rparr>
     ''h_dkid_dkey-ii_denc_dA256GCM_dalg_dECDH-ES+A256KW_depk_depk.ww|cek.iv.ih.cekivhi'' =
     ([KMS_Get ''key-ii'', Decrypt 0, Export 0],
      Inr \<lparr>Message = ''hi'', ToVerKey = ''pp''\<rparr>) \<and>
   Pack (spec_collaborators test_primitives)
     \<lparr>kms = spec_kms test_primitives [(''key-ii'', 2)], encAlg = ''A256GCM''\<rparr>
     ''hi'' [''p'', ''pp''] =
     Inr (CHR ''{'' # ''h__denc__dA256GCM__dalg__dECDH-ES+A256KW__depk__depk.iv.ih.cekivhi.key-i.w|cek.key-ii.ww|cek'') \<and>
   Unpack (spec_collaborators test_primitives)
     \<lparr>kms = spec_kms test_primitives [(''key-ii'', 2)], encAlg = ''A256GCM''\<rparr>
     (CHR ''{'' # ''h__denc__dA256GCM__dalg__dECDH-ES+A256KW__depk__depk.iv.ih.cekivhi.key-i.w|cek.key-ii.ww|cek'') =
     ([KMS_Get ''key-i'', KMS_Get ''key-ii'', Decrypt 1, Export 1],
      Inr \<lparr>Message = ''hi'', ToVerKey = ''pp''\<rparr>)"
proof -
  let ?p = "\<lparr>kms = spec_kms test_primitives [(''key-ii'', 2)], encAlg = ''A256GCM''\<rparr>"
  let ?compact = "''h_dkid_dkey-ii_denc_dA256GCM_dalg_dECDH-ES+A256KW_depk_depk.ww|cek.iv.ih.cekivhi''"
  let ?full = "CHR ''{'' # ''h__denc__dA256GCM__dalg__dECDH-ES+A256KW__depk__depk.iv.ih.cekivhi.key-i.w|cek.key-ii.ww|cek''"
  have one: "Pack (spec_collaborators test_primitives) ?p ''hi'' [''pp''] = Inr ?compact"
    by code_simp
  have two: "Pack (spec_collaborators test_primitives) ?p ''hi'' [''p'', ''pp''] = Inr ?full"
    by code_simp
  have trace_one: "fst (Unpack (spec_collaborators test_primitives) ?p ?compact) =
      [KMS_Get ''key-ii'', Decrypt 0, Export 0]"
    by code_simp
  have trace_two: "fst (Unpack (spec_collaborators test_primitives) ?p ?full) =
      [KMS_Get ''key-i'', KMS_Get ''key-ii'', Decrypt 1, Export 1]"
    by code_simp
  have enc: "encodeKey test_primitives 2 = ''pp''"
    by (simp add: test_primitives_def numeral_2_eq_2)
  from Pack_format_selection [OF test_crypto_correct test_codec_correct test_fold_reflexive
      test_decode_one, where m = 0 and sk = 2 and p = ?p and payload = "''hi''"]
  have "snd (Unpack (spec_collaborators test_primitives) ?p ?compact) =
      Inr \<lparr>Message = ''hi'', ToVerKey = ''pp''\<rparr>"
    by (auto simp: one test_keyID test_publicKey enc)
  with trace_one
  have first: "Unpack (spec_collaborators test_primitives) ?p ?compact =
      ([KMS_Get ''key-ii'', Decrypt 0, Export 0], Inr \<lparr>Message = ''hi'', ToVerKey = ''pp''\<rparr>)"
    by (metis prod.collapse)
  from Pack_format_selection [OF test_crypto_correct test_codec_correct test_fold_reflexive
      test_decode_two, where m = 1 and sk = 2 and p = ?p and payload = "''hi''"]
  have "snd (Unpack (spec_collaborators test_primitives) ?p ?full) =
      Inr \<lparr>Message = ''hi'', ToVerKey = ''pp''\<rparr>"
    by (auto simp: two test_keyID test_publicKey enc)
  with trace_two
  have second: "Unpack (spec_collaborators test_primitives) ?p ?full =
      ([KMS_Get ''key-i'', KMS_Get ''key-ii'', Decrypt 1, Export 1],
       Inr \<lparr>Message = ''hi'', ToVerKey = ''pp''\<rparr>)"
    by (metis prod.collapse)
  show ?thesis
    using one two first second by simp
qed

subsection \<open>Round trip\<close>

text \<open>
  Claim C1. Over the specified JOSE layer, with primitives that are correct (and a
  \<^verbatim>\<open>strings.EqualFold\<close> that equates every text with itself): for every
  payload and every non-empty list of recipient keys that decode, \<^verbatim>\<open>Pack\<close> returns an
  envelope, and \<^verbatim>\<open>Unpack\<close> of that envelope, with a key manager that holds exactly one
  private key, the one of recipient \<open>m\<close>, returns the payload unchanged (and as
  \<open>ToVerKey\<close> the encoded public key of that recipient). The number of recipients is
  arbitrary; the examples after it are one recipient and five.
\<close>

theorem Unpack_Pack_roundtrip:
  assumes crypto: "crypto_correct P" and codec: "codec_correct P"
    and fold: "fold_reflexive P"
    and keys: "map (decodeKey P) keys = map Inr pks" and ne: "keys \<noteq> []"
    and m: "m < length pks" and sk: "publicKey P sk = pks ! m"
    and kms: "kms p = spec_kms P [(keyID P (pks ! m), sk)]"
  shows "\<exists>envelope. Pack (spec_collaborators P) p payload keys = Inr envelope \<and>
           snd (Unpack (spec_collaborators P) p envelope) =
             Inr \<lparr>Message = payload, ToVerKey = encodeKey P (pks ! m)\<rparr>"
proof -
  let ?jwe = "projr (spec_Encrypt P (encAlg p, pks) payload)"
  have addr: "addressed_to P pks payload ?jwe"
    by (rule spec_Encrypt_addressed [where alg = "encAlg p"]) (simp add: spec_Encrypt_def)
  have len: "length pks = length keys"
    using keys by (metis length_map)
  show ?thesis
  proof (cases "length keys = 1")
    case True
    then obtain pk where pks: "pks = [pk]"
      using len by (cases pks) auto
    from compact_roundtrip [OF codec addr [unfolded pks]] obtain s jwe'
      where ser: "spec_CompactSerialize P ?jwe = Inr s"
        and des: "spec_Deserialize P s = Inr jwe'"
        and addr': "addressed_to P [pk] payload jwe'"
        and kid: "KeyID (ProtectedHeaders jwe') = Some (keyID P pk)"
      unfolding pks by blast
    have "Pack (spec_collaborators P) p payload keys = Inr s"
      using Pack_spec [OF keys ne] True ser by simp
    moreover have "snd (Unpack (spec_collaborators P) p s) =
        Inr \<lparr>Message = payload, ToVerKey = encodeKey P (pks ! m)\<rparr>"
      by (rule Unpack_addressed [OF crypto fold des addr' [folded pks] _ m sk kms])
        (simp add: pks kid)
    ultimately show ?thesis by blast
  next
    case False
    from full_roundtrip [OF codec addr] obtain s jwe'
      where ser: "spec_FullSerialize P ?jwe = Inr s"
        and des: "spec_Deserialize P s = Inr jwe'"
        and addr': "addressed_to P pks payload jwe'"
      by blast
    have "Pack (spec_collaborators P) p payload keys = Inr s"
      using Pack_spec [OF keys ne] False ser by simp
    moreover have "snd (Unpack (spec_collaborators P) p s) =
        Inr \<lparr>Message = payload, ToVerKey = encodeKey P (pks ! m)\<rparr>"
      by (rule Unpack_addressed [OF crypto fold des addr' _ m sk kms])
        (use False len in simp)
    ultimately show ?thesis by blast
  qed
qed

theorem Unpack_Pack_roundtrip_witness:
  "snd (Unpack (spec_collaborators test_primitives)
          \<lparr>kms = spec_kms test_primitives [(''key-ii'', 2)], encAlg = ''A256GCM''\<rparr>
          (projr (Pack (spec_collaborators test_primitives)
             \<lparr>kms = spec_kms test_primitives [(''key-ii'', 2)], encAlg = ''A256GCM''\<rparr>
             ''hello. {world}'' [''pp'']))) =
     Inr \<lparr>Message = ''hello. {world}'', ToVerKey = ''pp''\<rparr> \<and>
   snd (Unpack (spec_collaborators test_primitives)
          \<lparr>kms = spec_kms test_primitives [(''key-ii'', 2)], encAlg = ''A256GCM''\<rparr>
          (projr (Pack (spec_collaborators test_primitives)
             \<lparr>kms = spec_kms test_primitives [(''key-ii'', 2)], encAlg = ''A256GCM''\<rparr>
             ''hello. {world}'' [''p'', ''pp'', ''ppp'', ''pppp'', ''ppppp'']))) =
     Inr \<lparr>Message = ''hello. {world}'', ToVerKey = ''pp''\<rparr>"
proof -
  let ?p = "\<lparr>kms = spec_kms test_primitives [(''key-ii'', 2)], encAlg = ''A256GCM''\<rparr>"
  have enc: "encodeKey test_primitives 2 = ''pp''"
    by (simp add: test_primitives_def numeral_2_eq_2)
  have pub: "publicKey test_primitives 2 = 2"
    by (simp add: test_primitives_def)
  have one: "map (decodeKey test_primitives) [''pp''] = map Inr [2]"
    by (simp add: test_primitives_def)
  have five: "map (decodeKey test_primitives) [''p'', ''pp'', ''ppp'', ''pppp'', ''ppppp''] =
              map Inr [1, 2, 3, 4, 5]"
    by (simp add: test_primitives_def)
  from Unpack_Pack_roundtrip [OF test_crypto_correct test_codec_correct
      test_fold_reflexive one,
      where m = 0 and sk = 2 and p = ?p and payload = "''hello. {world}''"]
  have "\<exists>envelope. Pack (spec_collaborators test_primitives) ?p ''hello. {world}'' [''pp''] =
          Inr envelope \<and>
        snd (Unpack (spec_collaborators test_primitives) ?p envelope) =
          Inr \<lparr>Message = ''hello. {world}'', ToVerKey = ''pp''\<rparr>"
    by (simp add: test_keyID enc pub)
  moreover
  from Unpack_Pack_roundtrip [OF test_crypto_correct test_codec_correct
      test_fold_reflexive five,
      where m = 1 and sk = 2 and p = ?p and payload = "''hello. {world}''"]
  have "\<exists>envelope. Pack (spec_collaborators test_primitives) ?p ''hello. {world}''
          [''p'', ''pp'', ''ppp'', ''pppp'', ''ppppp''] = Inr envelope \<and>
        snd (Unpack (spec_collaborators test_primitives) ?p envelope) =
          Inr \<lparr>Message = ''hello. {world}'', ToVerKey = ''pp''\<rparr>"
    by (simp add: test_keyID enc pub)
  ultimately show ?thesis by auto
qed

end
